theory Spec2Isabelle
  imports Main "HOL-Library.Word"
begin

section \<open>Data model of the OPC UA bridge (webserver/core/opcua.cpp)\<close>

text \<open>
  A \<^verbatim>\<open>const UA_DataType *\<close> is either NULL (\<open>None\<close>) or the address of an entry of
  the stack's \<^verbatim>\<open>UA_TYPES\<close> table. The eleven entries the bridge compares against are
  named; every other entry is \<open>UA_TYPES_OTHER k\<close>.
\<close>

datatype ua_type =
    UA_TYPES_BOOLEAN | UA_TYPES_SBYTE | UA_TYPES_BYTE
  | UA_TYPES_INT16 | UA_TYPES_UINT16 | UA_TYPES_INT32 | UA_TYPES_UINT32
  | UA_TYPES_INT64 | UA_TYPES_UINT64 | UA_TYPES_FLOAT | UA_TYPES_DOUBLE
  | UA_TYPES_OTHER nat

text \<open>
  A scalar cell of the process image or of a variant. Floats are carried as their
  IEEE-754 bit patterns: the bridge only copies them.
\<close>

datatype scalar =
    Boolean bool | SByte "8 word" | Byte "8 word"
  | Int16 "16 word" | UInt16 "16 word" | Int32 "32 word" | UInt32 "32 word"
  | Int64 "64 word" | UInt64 "64 word" | Float "32 word" | Double "64 word"

datatype ua_status =
    UA_STATUSCODE_GOOD | UA_STATUSCODE_BADINTERNALERROR | UA_STATUSCODE_BADTYPEMISMATCH
  | UA_STATUSCODE_BADNODEIDEXISTS | UA_STATUSCODE_BADOUTOFMEMORY | UA_STATUSCODE_BAD nat

text \<open>
  Pointers into PLC memory are addresses, NULL is \<open>None\<close>. The memory maps every
  address to the scalar stored there; a store through NULL is a fault.
\<close>

type_synonym addr = nat
type_synonym memory = "addr \<Rightarrow> scalar"

datatype fault = NullDereference

record UA_NodeId =
  namespaceIndex :: "16 word"
  numeric :: "32 word"

text \<open>
  \<^verbatim>\<open>UA_Variant\<close>: the type pointer, the array length and the data pointer, which is
  NULL, the stack's \<^verbatim>\<open>UA_EMPTY_ARRAY_SENTINEL\<close>, or the address of the payload. The
  stack hands the bridge variants whose payload is of the variant's type.
\<close>

datatype variant_data = NullData | EmptyArraySentinel | Data scalar

record UA_Variant =
  vtype :: "ua_type option"
  arrayLength :: nat
  vdata :: variant_data

definition UA_Variant_isScalar :: "UA_Variant \<Rightarrow> bool" where
  "UA_Variant_isScalar v =
     (arrayLength v = 0 \<and> (case vdata v of Data x \<Rightarrow> True | NullData \<Rightarrow> False | EmptyArraySentinel \<Rightarrow> False))"

definition empty_variant :: UA_Variant where
  "empty_variant = \<lparr>vtype = None, arrayLength = 0, vdata = NullData\<rparr>"

definition scalar_variant :: "ua_type \<Rightarrow> scalar \<Rightarrow> UA_Variant" where
  "scalar_variant t x = \<lparr>vtype = Some t, arrayLength = 0, vdata = Data x\<rparr>"

record UA_DataValue =
  dv_value :: UA_Variant
  hasValue :: bool
  hasStatus :: bool
  status :: ua_status
  hasSourceTimestamp :: bool

text \<open>The binding of the read and write handlers (\<^verbatim>\<open>struct OpcVarBinding\<close>).\<close>

record OpcVarBinding =
  b_variablePtr :: "addr option"
  b_dataType :: "ua_type option"
  shadowPtr :: "addr option"

text \<open>The node record of the periodic update and of the installed write callback
  (\<^verbatim>\<open>struct OpcNodeInfo\<close>); the list link is the list itself.\<close>

record OpcNodeInfo =
  nodeId :: UA_NodeId
  variablePtr :: "addr option"
  dataType :: "ua_type option"

text \<open>
  \<^verbatim>\<open>UA_ValueCallback\<close>: the two members \<^verbatim>\<open>onRead\<close> and \<^verbatim>\<open>onWrite\<close> are function
  pointers of one type, each NULL (\<open>None\<close>) or a function. \<^verbatim>\<open>onVariableValueWrite\<close>
  is the only function of opcua.cpp of that type; \<^verbatim>\<open>readVariableValue\<close> and
  \<^verbatim>\<open>writeVariableValue\<close> have the type of the members of a data source, and opcua.cpp
  mentions them only where it declares and defines them.
\<close>

datatype value_callback_fn = Fn_onVariableValueWrite

record UA_ValueCallback =
  onRead :: "value_callback_fn option"
  onWrite :: "value_callback_fn option"

text \<open>
  What a function does besides computing: taking and releasing the two mutexes
  (\<^verbatim>\<open>bufferLock\<close>, the scan lock of the PLC runtime, and \<^verbatim>\<open>opcua_mutex\<close>, the lock of
  the bridge's node list), reading and writing PLC memory, and calling into the
  OPC UA stack. Calls of \<^verbatim>\<open>openplc_log\<close> are left out: they touch no state of the bridge.
\<close>

datatype lock = bufferLock | opcua_mutex

datatype stack_call =
    UA_Server_new
  | UA_Server_getConfig
  | UA_ServerConfig_setMinimal "16 word"
  | UA_Server_addNamespace string
  | UA_Server_addObjectNode UA_NodeId UA_NodeId string
  | UA_Server_addVariableNode UA_NodeId UA_NodeId string ua_type UA_Variant
  | UA_Server_setNodeContext UA_NodeId OpcNodeInfo
  | UA_Server_setVariableNode_valueCallback UA_NodeId UA_ValueCallback
  | UA_Server_writeValue UA_NodeId UA_Variant
  | UA_Server_run_startup
  | UA_Server_run_iterate
  | UA_Server_delete

datatype event = Lock lock | Unlock lock | ReadMem addr | WriteMem addr | StackCall stack_call

section \<open>The write handlers\<close>



text \<open>
  \<^verbatim>\<open>onVariableValueWrite\<close>, the callback \<^verbatim>\<open>addVariableNode\<close> installs as
  \<^verbatim>\<open>cb.onWrite\<close>. It returns \<^verbatim>\<open>void\<close>: its result is the memory and the events, with
  no status. The store goes through a pointer the guards have checked.
\<close>

definition store_image :: "addr option \<Rightarrow> scalar \<Rightarrow> memory \<Rightarrow> fault + (memory \<times> event list)" where
  "store_image p v m =
     (case p of
        None \<Rightarrow> Inl NullDereference
      | Some vp \<Rightarrow> Inr (m(vp := v), [Lock bufferLock, WriteMem vp, Unlock bufferLock]))"

definition onVariableValueWrite ::
  "OpcNodeInfo option \<Rightarrow> UA_DataValue option \<Rightarrow> memory \<Rightarrow> fault + (memory \<times> event list)" where
  "onVariableValueWrite nodeContext data m =
     (case nodeContext of
        None \<Rightarrow> Inr (m, [])
      | Some info \<Rightarrow>
     (case data of
        None \<Rightarrow> Inr (m, [])
      | Some dv \<Rightarrow>
     if \<not> hasValue dv then Inr (m, [])
     else if variablePtr info = None \<or> dataType info = None then Inr (m, [])
     else
     (case vdata (dv_value dv) of
        NullData \<Rightarrow> Inr (m, [])
      | EmptyArraySentinel \<Rightarrow> Inr (m, [])
      | Data v \<Rightarrow>
     if \<not> UA_Variant_isScalar (dv_value dv) \<or> vtype (dv_value dv) = None then Inr (m, [])
     else if vtype (dv_value dv) \<noteq> dataType info then Inr (m, [])
     else if dataType info = Some UA_TYPES_BOOLEAN then store_image (variablePtr info) v m
     else if dataType info = Some UA_TYPES_BYTE then store_image (variablePtr info) v m
     else if dataType info = Some UA_TYPES_SBYTE then store_image (variablePtr info) v m
     else if dataType info = Some UA_TYPES_INT16 then store_image (variablePtr info) v m
     else if dataType info = Some UA_TYPES_INT32 then store_image (variablePtr info) v m
     else if dataType info = Some UA_TYPES_INT64 then store_image (variablePtr info) v m
     else if dataType info = Some UA_TYPES_UINT16 then store_image (variablePtr info) v m
     else if dataType info = Some UA_TYPES_UINT32 then store_image (variablePtr info) v m
     else if dataType info = Some UA_TYPES_UINT64 then store_image (variablePtr info) v m
     else if dataType info = Some UA_TYPES_FLOAT then store_image (variablePtr info) v m
     else if dataType info = Some UA_TYPES_DOUBLE then store_image (variablePtr info) v m
     else Inr (m, [Lock bufferLock, Unlock bufferLock]))))"


section \<open>The read handler\<close>

text \<open>
  \<^verbatim>\<open>readVariableValue\<close>; like \<^verbatim>\<open>writeVariableValue\<close> it is defined and installed on no
  node. The data value is an out-parameter that the handler does not initialise: the
  fields it leaves alone keep what the caller passed. \<open>copy_ok\<close> is whether
  \<^verbatim>\<open>UA_Variant_setScalarCopy\<close> could allocate; its status \<^verbatim>\<open>sc\<close> is not used by the
  handler.
\<close>

definition UA_Variant_setScalarCopy :: "bool \<Rightarrow> ua_type \<Rightarrow> scalar \<Rightarrow> UA_Variant \<Rightarrow> UA_Variant" where
  "UA_Variant_setScalarCopy copy_ok t v old = (if copy_ok then scalar_variant t v else old)"

definition read_shadow ::
  "bool \<Rightarrow> ua_type \<Rightarrow> addr \<Rightarrow> memory \<Rightarrow> UA_DataValue \<Rightarrow> ua_status \<times> UA_DataValue option \<times> event list" where
  "read_shadow copy_ok t sp m dv =
     (UA_STATUSCODE_GOOD,
      Some (dv\<lparr>dv_value := UA_Variant_setScalarCopy copy_ok t (m sp) (dv_value dv),
               hasValue := False, status := UA_STATUSCODE_GOOD, hasStatus := True,
               hasSourceTimestamp := False\<rparr>),
      [ReadMem sp])"

definition readVariableValue ::
  "bool \<Rightarrow> OpcVarBinding option \<Rightarrow> UA_DataValue option \<Rightarrow> memory
     \<Rightarrow> ua_status \<times> UA_DataValue option \<times> event list" where
  "readVariableValue copy_ok nodeContext dataValue m =
     (case nodeContext of
        None \<Rightarrow> (UA_STATUSCODE_BADINTERNALERROR, dataValue, [])
      | Some binding \<Rightarrow>
     (case dataValue of
        None \<Rightarrow> (UA_STATUSCODE_BADINTERNALERROR, None, [])
      | Some dv \<Rightarrow>
     (case b_dataType binding of
        None \<Rightarrow>
          (UA_STATUSCODE_GOOD,
           Some (dv\<lparr>hasValue := False, hasStatus := True, status := UA_STATUSCODE_GOOD,
                    hasSourceTimestamp := False\<rparr>), [])
      | Some t \<Rightarrow>
     (case shadowPtr binding of
        None \<Rightarrow>
          (UA_STATUSCODE_GOOD,
           Some (dv\<lparr>hasValue := False, hasStatus := True, status := UA_STATUSCODE_GOOD,
                    hasSourceTimestamp := False\<rparr>), [])
      | Some sp \<Rightarrow>
     if t = UA_TYPES_BOOLEAN then read_shadow copy_ok UA_TYPES_BOOLEAN sp m dv
     else if t = UA_TYPES_BYTE then read_shadow copy_ok UA_TYPES_BYTE sp m dv
     else if t = UA_TYPES_SBYTE then read_shadow copy_ok UA_TYPES_SBYTE sp m dv
     else if t = UA_TYPES_INT16 then read_shadow copy_ok UA_TYPES_INT16 sp m dv
     else if t = UA_TYPES_INT32 then read_shadow copy_ok UA_TYPES_INT32 sp m dv
     else if t = UA_TYPES_INT64 then read_shadow copy_ok UA_TYPES_INT64 sp m dv
     else if t = UA_TYPES_UINT16 then read_shadow copy_ok UA_TYPES_UINT16 sp m dv
     else if t = UA_TYPES_UINT32 then read_shadow copy_ok UA_TYPES_UINT32 sp m dv
     else if t = UA_TYPES_UINT64 then read_shadow copy_ok UA_TYPES_UINT64 sp m dv
     else if t = UA_TYPES_FLOAT then read_shadow copy_ok UA_TYPES_FLOAT sp m dv
     else if t = UA_TYPES_DOUBLE then read_shadow copy_ok UA_TYPES_DOUBLE sp m dv
     else
       (UA_STATUSCODE_GOOD,
        Some (dv\<lparr>hasValue := False, status := UA_STATUSCODE_GOOD, hasStatus := True,
                 hasSourceTimestamp := False\<rparr>), [])))))"

section \<open>C strings\<close>

text \<open>
  A C string is the characters of a buffer up to the first NUL. The functions of
  \<^verbatim>\<open><string.h>\<close> and \<^verbatim>\<open><stdlib.h>\<close> the bridge calls are written out on character
  lists; each stops at a NUL as the C function does.
\<close>

definition NUL :: char where
  "NUL = CHR 0x00"

primrec c_str :: "string \<Rightarrow> string" where
  "c_str [] = []"
| "c_str (c # cs) = (if c = NUL then [] else c # c_str cs)"

definition nth_char :: "string \<Rightarrow> nat \<Rightarrow> char" where
  "nth_char s i = (if i < length s then s ! i else NUL)"

definition isspace :: "char \<Rightarrow> bool" where
  "isspace c = (c = CHR '' '' \<or> c = CHR 0x09 \<or> c = CHR 0x0A \<or> c = CHR 0x0B \<or> c = CHR 0x0C \<or> c = CHR 0x0D)"

primrec position_in :: "string \<Rightarrow> nat \<Rightarrow> char \<Rightarrow> nat option" where
  "position_in [] k ch = None"
| "position_in (c # cs) k ch = (if c = ch then Some k else position_in cs (k + 1) ch)"

definition digit_val :: "char \<Rightarrow> int option" where
  "digit_val c = map_option int (position_in ''0123456789'' 0 c)"

primrec atoi_digits :: "int \<Rightarrow> string \<Rightarrow> int" where
  "atoi_digits acc [] = acc"
| "atoi_digits acc (c # cs) =
     (case digit_val c of None \<Rightarrow> acc | Some d \<Rightarrow> atoi_digits (acc * 10 + d) cs)"

text \<open>
  The number a decimal numeral writes: leading white space, an optional sign, then
  digits up to the first other character; 0 when there is no digit.
\<close>

definition decimal_value :: "string \<Rightarrow> int" where
  "decimal_value s =
     (case dropWhile isspace s of
        [] \<Rightarrow> 0
      | c # cs \<Rightarrow>
          if c = CHR ''-'' then - atoi_digits 0 cs
          else if c = CHR ''+'' then atoi_digits 0 cs
          else atoi_digits 0 (c # cs))"

text \<open>
  \<^verbatim>\<open>atoi\<close> returns a C \<^verbatim>\<open>int\<close> (32 bits). C leaves its result undefined when the number
  does not fit; the C library the bridge is built with (glibc) computes
  \<^verbatim>\<open>(int) strtol(s, NULL, 10)\<close>: \<^verbatim>\<open>strtol\<close> gives the number as a \<^verbatim>\<open>long\<close> (64 bits),
  the nearest of \<^verbatim>\<open>LONG_MIN\<close> and \<^verbatim>\<open>LONG_MAX\<close> when it does not fit a \<^verbatim>\<open>long\<close>, and the
  conversion to \<^verbatim>\<open>int\<close> keeps the low 32 bits in two's complement.
\<close>

definition strtol :: "string \<Rightarrow> int" where
  "strtol s =
     (if decimal_value s < - 9223372036854775808 then - 9223372036854775808
      else if 9223372036854775807 < decimal_value s then 9223372036854775807
      else decimal_value s)"

definition int_of_long :: "int \<Rightarrow> int" where
  "int_of_long v =
     (if v mod 4294967296 < 2147483648 then v mod 4294967296 else v mod 4294967296 - 4294967296)"

definition atoi :: "string \<Rightarrow> int" where
  "atoi s = int_of_long (strtol s)"

text \<open>\<^verbatim>\<open>strchr\<close>: the rest of the string from the first occurrence of the character.\<close>

primrec strchr :: "string \<Rightarrow> char \<Rightarrow> string option" where
  "strchr [] ch = None"
| "strchr (c # cs) ch =
     (if c = ch then Some (c # cs) else if c = NUL then None else strchr cs ch)"

text \<open>
  \<^verbatim>\<open>rpar = strrchr(lpar, ch); *rpar = 0\<close>: the string cut before the last occurrence
  of the character, \<open>None\<close> when it does not occur.
\<close>

primrec cut_at_last :: "char \<Rightarrow> string \<Rightarrow> string option" where
  "cut_at_last ch [] = None"
| "cut_at_last ch (c # cs) =
     (case cut_at_last ch cs of
        Some r \<Rightarrow> Some (c # r)
      | None \<Rightarrow> if c = ch then Some [] else None)"

primrec starts_with :: "string \<Rightarrow> string \<Rightarrow> bool" where
  "starts_with [] s = True"
| "starts_with (p # ps) s = (case s of [] \<Rightarrow> False | c # cs \<Rightarrow> c = p \<and> starts_with ps cs)"

text \<open>\<^verbatim>\<open>strstr(s, pat) != NULL\<close>.\<close>

primrec strstr_found :: "string \<Rightarrow> string \<Rightarrow> bool" where
  "strstr_found [] pat = (pat = [])"
| "strstr_found (c # cs) pat = (starts_with pat (c # cs) \<or> strstr_found cs pat)"

text \<open>
  The tokens successive calls of \<^verbatim>\<open>strtok_r\<close> with one delimiter return: the maximal
  runs of other characters, none of them empty.
\<close>

primrec split_on :: "char \<Rightarrow> string \<Rightarrow> string list" where
  "split_on d [] = [[]]"
| "split_on d (c # cs) =
     (if c = d then [] # split_on d cs
      else (case split_on d cs of [] \<Rightarrow> [[c]] | f # fs \<Rightarrow> (c # f) # fs))"

definition strtok_all :: "char \<Rightarrow> string \<Rightarrow> string list" where
  "strtok_all d s = filter (\<lambda>t. t \<noteq> []) (split_on d s)"

text \<open>\<^verbatim>\<open>snprintf\<close> of \<^verbatim>\<open>%d\<close>.\<close>

definition digit_char :: "nat \<Rightarrow> char" where
  "digit_char d = nth_char ''0123456789'' d"

fun show_nat :: "nat \<Rightarrow> string" where
  "show_nat n = (if n < 10 then [digit_char n] else show_nat (n div 10) @ [digit_char (n mod 10)])"

definition show_int :: "int \<Rightarrow> string" where
  "show_int i = (if i < 0 then CHR ''-'' # show_nat (nat (- i)) else show_nat (nat i))"

section \<open>Resolving an IEC location\<close>

text \<open>
  The pointer tables of the PLC runtime and \<^verbatim>\<open>BUFFER_SIZE\<close> are declared in
  \<^verbatim>\<open>ladder.h\<close>, which is not among these sources: they are parameters. An entry is NULL
  (\<open>None\<close>) when the compiled program did not allocate the variable.
\<close>

record plc_image =
  BUFFER_SIZE :: int
  bool_input :: "nat \<Rightarrow> nat \<Rightarrow> addr option"
  bool_output :: "nat \<Rightarrow> nat \<Rightarrow> addr option"
  byte_input :: "nat \<Rightarrow> addr option"
  byte_output :: "nat \<Rightarrow> addr option"
  int_input :: "nat \<Rightarrow> addr option"
  int_output :: "nat \<Rightarrow> addr option"
  dint_input :: "nat \<Rightarrow> addr option"
  dint_output :: "nat \<Rightarrow> addr option"
  lint_input :: "nat \<Rightarrow> addr option"
  lint_output :: "nat \<Rightarrow> addr option"
  real_input :: "nat \<Rightarrow> addr option"
  real_output :: "nat \<Rightarrow> addr option"
  lreal_input :: "nat \<Rightarrow> addr option"
  lreal_output :: "nat \<Rightarrow> addr option"
  int_memory :: "nat \<Rightarrow> addr option"
  dint_memory :: "nat \<Rightarrow> addr option"
  lint_memory :: "nat \<Rightarrow> addr option"
  real_memory :: "nat \<Rightarrow> addr option"
  lreal_memory :: "nat \<Rightarrow> addr option"

text \<open>
  One \<^verbatim>\<open>if (index1>=0 && index1<BUFFER_SIZE && table[index1] != NULL)\<close> of the
  resolver, with the pointer and type it hands out.
\<close>

definition slot ::
  "plc_image \<Rightarrow> (nat \<Rightarrow> addr option) \<Rightarrow> int \<Rightarrow> ua_type \<Rightarrow> (addr \<times> ua_type) option" where
  "slot img table index1 t =
     (if 0 \<le> index1 \<and> index1 < BUFFER_SIZE img
      then (case table (nat index1) of None \<Rightarrow> None | Some p \<Rightarrow> Some (p, t))
      else None)"

definition resolvePointerFromLocation ::
  "plc_image \<Rightarrow> string \<Rightarrow> (addr \<times> ua_type) option" where
  "resolvePointerFromLocation img location =
     (if nth_char location 0 \<noteq> CHR ''%'' then None
      else
        let area = nth_char location 1;
            type = nth_char location 2;
            rest = drop 3 location;
            index1 = atoi rest;
            dot = strchr rest CHR ''.'';
            index2 = (if type = CHR ''X'' then (case dot of None \<Rightarrow> - 1 | Some d \<Rightarrow> atoi (tl d))
                      else - 1)
        in
        if type = CHR ''X'' \<and> (dot = None \<or> index2 < 0 \<or> index2 \<ge> 8) then None
        else if area = CHR ''I'' then
          (if type = CHR ''X'' then slot img (\<lambda>i. bool_input img i (nat index2)) index1 UA_TYPES_BOOLEAN
           else if type = CHR ''B'' then slot img (byte_input img) index1 UA_TYPES_BYTE
           else if type = CHR ''W'' then slot img (int_input img) index1 UA_TYPES_UINT16
           else if type = CHR ''D'' then slot img (dint_input img) index1 UA_TYPES_UINT32
           else if type = CHR ''L'' then slot img (lint_input img) index1 UA_TYPES_UINT64
           else if type = CHR ''R'' then slot img (real_input img) index1 UA_TYPES_FLOAT
           else if type = CHR ''F'' then slot img (lreal_input img) index1 UA_TYPES_DOUBLE
           else None)
        else if area = CHR ''Q'' then
          (if type = CHR ''X'' then slot img (\<lambda>i. bool_output img i (nat index2)) index1 UA_TYPES_BOOLEAN
           else if type = CHR ''B'' then slot img (byte_output img) index1 UA_TYPES_BYTE
           else if type = CHR ''W'' then slot img (int_output img) index1 UA_TYPES_UINT16
           else if type = CHR ''D'' then slot img (dint_output img) index1 UA_TYPES_UINT32
           else if type = CHR ''L'' then slot img (lint_output img) index1 UA_TYPES_UINT64
           else if type = CHR ''R'' then slot img (real_output img) index1 UA_TYPES_FLOAT
           else if type = CHR ''F'' then slot img (lreal_output img) index1 UA_TYPES_DOUBLE
           else None)
        else if area = CHR ''M'' then
          (if type = CHR ''W'' then slot img (int_memory img) index1 UA_TYPES_UINT16
           else if type = CHR ''D'' then slot img (dint_memory img) index1 UA_TYPES_UINT32
           else if type = CHR ''L'' then slot img (lint_memory img) index1 UA_TYPES_UINT64
           else if type = CHR ''R'' then slot img (real_memory img) index1 UA_TYPES_FLOAT
           else if type = CHR ''F'' then slot img (lreal_memory img) index1 UA_TYPES_DOUBLE
           else None)
        else None)"

section \<open>The state of the bridge and the OPC UA stack\<close>

text \<open>
  The open62541 stack, \<^verbatim>\<open>malloc\<close> and the file system are outside these sources. What
  they answer is a parameter: each answer may depend on everything the bridge has done
  so far (the events up to and including the call). \<open>fopen_lines path\<close> is \<open>None\<close>
  when \<^verbatim>\<open>fopen(path, "r")\<close> fails, and otherwise the strings successive calls of
  \<^verbatim>\<open>fgets\<close> return.
\<close>

record stack_env =
  server_new_ok :: "event list \<Rightarrow> bool"
  getConfig_ok :: "event list \<Rightarrow> bool"
  setMinimal_reply :: "event list \<Rightarrow> ua_status"
  addNamespace_reply :: "event list \<Rightarrow> 16 word"
  addVariableNode_reply :: "event list \<Rightarrow> ua_status"
  run_startup_reply :: "event list \<Rightarrow> ua_status"
  malloc_ok :: "event list \<Rightarrow> bool"
  fopen_lines :: "string \<Rightarrow> string list option"

datatype server = ServerInstance

text \<open>
  The globals of opcua.cpp, the function-local \<^verbatim>\<open>static UA_UInt32 nextId\<close> of
  \<^verbatim>\<open>createNodesFromLocatedVariables\<close>, and the events so far (oldest first).
  \<^verbatim>\<open>g_binding_head\<close> is never assigned and is left out. \<^verbatim>\<open>nextId\<close> is unsigned and
  wraps around; \<^verbatim>\<open>g_node_count\<close> (and the loop counters \<^verbatim>\<open>added\<close> and \<^verbatim>\<open>seen\<close> below)
  are C \<^verbatim>\<open>int\<close>s that are only logged or returned: they are integers here, and every
  example keeps them within the range of \<^verbatim>\<open>int\<close>.
\<close>

record bridge =
  g_opcua_server :: "server option"
  g_opcua_running :: bool
  g_namespace_index :: "16 word"
  g_node_list :: "OpcNodeInfo list"
  g_node_count :: int
  nextId :: "32 word"
  events :: "event list"

definition bridge_init :: bridge where
  "bridge_init =
     \<lparr>g_opcua_server = None, g_opcua_running = False, g_namespace_index = 1,
      g_node_list = [], g_node_count = 0, nextId = 4000000, events = []\<rparr>"

definition emit :: "event list \<Rightarrow> bridge \<Rightarrow> bridge" where
  "emit es st = st\<lparr>events := events st @ es\<rparr>"

definition UA_NODEID_NUMERIC :: "16 word \<Rightarrow> 32 word \<Rightarrow> UA_NodeId" where
  "UA_NODEID_NUMERIC ns i = \<lparr>namespaceIndex = ns, numeric = i\<rparr>"

section \<open>Adding a variable node\<close>

text \<open>The value callback \<^verbatim>\<open>addVariableNode\<close> installs: \<^verbatim>\<open>cb.onRead = NULL\<close> (reads are
  handled by the periodic update), \<^verbatim>\<open>cb.onWrite = onVariableValueWrite\<close>.\<close>

definition node_value_callback :: UA_ValueCallback where
  "node_value_callback = \<lparr>onRead = None, onWrite = Some Fn_onVariableValueWrite\<rparr>"

text \<open>The initial value \<^verbatim>\<open>addVariableNode\<close> gives \<^verbatim>\<open>attr.value\<close>: the zero of the type
  (an empty variant for a type outside the eleven).\<close>

definition initial_value :: "ua_type \<Rightarrow> UA_Variant" where
  "initial_value t =
     (if t = UA_TYPES_BOOLEAN then scalar_variant UA_TYPES_BOOLEAN (Boolean False)
      else if t = UA_TYPES_BYTE then scalar_variant UA_TYPES_BYTE (Byte 0)
      else if t = UA_TYPES_SBYTE then scalar_variant UA_TYPES_SBYTE (SByte 0)
      else if t = UA_TYPES_INT16 then scalar_variant UA_TYPES_INT16 (Int16 0)
      else if t = UA_TYPES_INT32 then scalar_variant UA_TYPES_INT32 (Int32 0)
      else if t = UA_TYPES_INT64 then scalar_variant UA_TYPES_INT64 (Int64 0)
      else if t = UA_TYPES_UINT16 then scalar_variant UA_TYPES_UINT16 (UInt16 0)
      else if t = UA_TYPES_UINT32 then scalar_variant UA_TYPES_UINT32 (UInt32 0)
      else if t = UA_TYPES_UINT64 then scalar_variant UA_TYPES_UINT64 (UInt64 0)
      else if t = UA_TYPES_FLOAT then scalar_variant UA_TYPES_FLOAT (Float 0)
      else if t = UA_TYPES_DOUBLE then scalar_variant UA_TYPES_DOUBLE (Double 0)
      else empty_variant)"

text \<open>
  \<^verbatim>\<open>addVariableNode\<close>. On Good from the stack and a successful \<^verbatim>\<open>malloc\<close> the node
  record is pushed on \<^verbatim>\<open>g_node_list\<close> under \<^verbatim>\<open>opcua_mutex\<close>, then set as the node's
  context, and the value callback (\<^verbatim>\<open>onRead = NULL\<close>,
  \<^verbatim>\<open>onWrite = onVariableValueWrite\<close>) is installed.
\<close>

definition addVariableNode ::
  "stack_env \<Rightarrow> string \<Rightarrow> UA_NodeId \<Rightarrow> UA_NodeId \<Rightarrow> addr option \<Rightarrow> ua_type option
     \<Rightarrow> bridge \<Rightarrow> bridge" where
  "addVariableNode env nodeName parentNodeId nid vptr dtype st =
     (case vptr of
        None \<Rightarrow> st
      | Some p \<Rightarrow>
     (case dtype of
        None \<Rightarrow> st
      | Some t \<Rightarrow>
     let st1 = emit [StackCall (UA_Server_addVariableNode nid parentNodeId nodeName t (initial_value t))] st;
         retval = addVariableNode_reply env (events st1)
     in
     if retval = UA_STATUSCODE_GOOD then
       (if malloc_ok env (events st1) then
          let nodeInfo = \<lparr>nodeId = nid, variablePtr = vptr, dataType = dtype\<rparr>;
              cb = node_value_callback;
              st2 = emit [Lock opcua_mutex] st1;
              st3 = st2\<lparr>g_node_list := nodeInfo # g_node_list st2,
                        g_node_count := g_node_count st2 + 1\<rparr>;
              st4 = emit [Unlock opcua_mutex] st3
          in emit [StackCall (UA_Server_setNodeContext nid nodeInfo),
                   StackCall (UA_Server_setVariableNode_valueCallback nid cb)] st4
        else st1)
     else st1))"

section \<open>The periodic update\<close>

text \<open>
  The value \<^verbatim>\<open>opcuaUpdateNodeValues\<close> reads for one node: the cell behind
  \<^verbatim>\<open>it->variablePtr\<close> for the eleven types, an empty variant for any other.
  \<open>copy_ok\<close> is whether \<^verbatim>\<open>UA_Variant_setScalarCopy\<close> could allocate.
\<close>

definition is_bridge_type :: "ua_type \<Rightarrow> bool" where
  "is_bridge_type t =
     (t = UA_TYPES_BOOLEAN \<or> t = UA_TYPES_BYTE \<or> t = UA_TYPES_SBYTE \<or> t = UA_TYPES_INT16
      \<or> t = UA_TYPES_INT32 \<or> t = UA_TYPES_INT64 \<or> t = UA_TYPES_UINT16 \<or> t = UA_TYPES_UINT32
      \<or> t = UA_TYPES_UINT64 \<or> t = UA_TYPES_FLOAT \<or> t = UA_TYPES_DOUBLE)"

definition update_node :: "bool \<Rightarrow> memory \<Rightarrow> OpcNodeInfo \<Rightarrow> event list" where
  "update_node copy_ok m it =
     (case variablePtr it of
        None \<Rightarrow> []
      | Some p \<Rightarrow>
     (case dataType it of
        None \<Rightarrow> []
      | Some t \<Rightarrow>
          if is_bridge_type t
          then [ReadMem p,
                StackCall (UA_Server_writeValue (nodeId it)
                  (UA_Variant_setScalarCopy copy_ok t (m p) empty_variant))]
          else [StackCall (UA_Server_writeValue (nodeId it) empty_variant)]))"

primrec update_nodes :: "bool \<Rightarrow> memory \<Rightarrow> OpcNodeInfo list \<Rightarrow> event list" where
  "update_nodes copy_ok m [] = []"
| "update_nodes copy_ok m (it # rest) = update_node copy_ok m it @ update_nodes copy_ok m rest"

definition opcuaUpdateNodeValues :: "bool \<Rightarrow> memory \<Rightarrow> bridge \<Rightarrow> bridge" where
  "opcuaUpdateNodeValues copy_ok m st =
     (if g_opcua_server st = None \<or> \<not> g_opcua_running st then st
      else emit ([Lock opcua_mutex] @ update_nodes copy_ok m (g_node_list st) @ [Unlock opcua_mutex]) st)"

section \<open>Building the address space\<close>

definition registerNamespace :: "stack_env \<Rightarrow> bridge \<Rightarrow> bridge" where
  "registerNamespace env st =
     (let st1 = emit [StackCall (UA_Server_addNamespace ''http://openplc.org/'')] st
      in st1\<lparr>g_namespace_index := addNamespace_reply env (events st1)\<rparr>)"

definition UA_NS0ID_OBJECTSFOLDER :: "32 word" where
  "UA_NS0ID_OBJECTSFOLDER = 85"

definition createFolderStructure :: "bridge \<Rightarrow> bridge" where
  "createFolderStructure st =
     (let ns = g_namespace_index st;
          objectsFolder = UA_NODEID_NUMERIC 0 UA_NS0ID_OBJECTSFOLDER;
          openplcFolder = UA_NODEID_NUMERIC ns 1000
      in emit
           [StackCall (UA_Server_addObjectNode openplcFolder objectsFolder ''OpenPLC''),
            StackCall (UA_Server_addObjectNode (UA_NODEID_NUMERIC ns 2000) openplcFolder ''BooleanInputs''),
            StackCall (UA_Server_addObjectNode (UA_NODEID_NUMERIC ns 2001) openplcFolder ''BooleanOutputs''),
            StackCall (UA_Server_addObjectNode (UA_NODEID_NUMERIC ns 2002) openplcFolder ''IntegerInputs''),
            StackCall (UA_Server_addObjectNode (UA_NODEID_NUMERIC ns 2003) openplcFolder ''IntegerOutputs''),
            StackCall (UA_Server_addObjectNode (UA_NODEID_NUMERIC ns 2004) openplcFolder ''MemoryVariables'')]
           st)"

definition createProgramVariablesFolder :: "bridge \<Rightarrow> UA_NodeId \<times> bridge" where
  "createProgramVariablesFolder st =
     (let openplcFolder = UA_NODEID_NUMERIC (g_namespace_index st) 1000;
          programVarsFolder = UA_NODEID_NUMERIC (g_namespace_index st) 2100
      in (programVarsFolder,
          emit [StackCall (UA_Server_addObjectNode programVarsFolder openplcFolder ''ProgramVariables'')] st))"

section \<open>Reading the manifest\<close>

text \<open>
  The body of the \<^verbatim>\<open>while (fgets(...))\<close> loop of \<^verbatim>\<open>createNodesFromLocatedVariables\<close> on
  one line; the loop state is the bridge and the counters \<^verbatim>\<open>added\<close> and \<^verbatim>\<open>seen\<close>.
  Every \<^verbatim>\<open>continue\<close> of the source is a branch that returns the state with at most
  \<^verbatim>\<open>seen\<close> changed.
\<close>

definition skip_blanks :: "string \<Rightarrow> string" where
  "skip_blanks s = dropWhile (\<lambda>c. c = CHR '' '' \<or> c = CHR 0x09) s"

definition first_char :: "string \<Rightarrow> char" where
  "first_char s = (case s of [] \<Rightarrow> NUL | c # cs \<Rightarrow> c)"

definition display_name :: "string \<Rightarrow> string" where
  "display_name tok =
     (let nameTok = skip_blanks tok
      in take 127 (if starts_with ''__'' nameTok then drop 2 nameTok else nameTok))"

definition compose_location :: "char \<Rightarrow> char \<Rightarrow> int \<Rightarrow> int \<Rightarrow> string" where
  "compose_location area typ idx1 idx2 =
     (if typ = CHR ''X'' then CHR ''%'' # area # CHR ''X'' # show_int idx1 @ CHR ''.'' # show_int idx2
      else CHR ''%'' # area # typ # show_int idx1)"

text \<open>
  The parsing part of the loop body: \<open>NoMarker\<close> is the \<^verbatim>\<open>continue\<close> before
  \<^verbatim>\<open>seen++\<close>, \<open>Skipped\<close> the two after it (no parentheses, \<^verbatim>\<open>n < 6\<close>), and
  \<open>LocatedVar dispName location\<close> a line that reaches the resolver.
\<close>

datatype parsed_line = NoMarker | Skipped | LocatedVar string string

definition parse_located_var :: "string \<Rightarrow> parsed_line" where
  "parse_located_var line =
     (let p = dropWhile (\<lambda>c. c = CHR '' '' \<or> c = CHR 0x09 \<or> c = CHR 0x0D \<or> c = CHR 0x0A) (c_str line)
      in
      if \<not> strstr_found p ''__LOCATED_VAR('' then NoMarker
      else
      (case strchr p CHR ''('' of
         None \<Rightarrow> Skipped
       | Some lpar \<Rightarrow>
      (case cut_at_last CHR '')'' lpar of
         None \<Rightarrow> Skipped
       | Some inside \<Rightarrow>
      let args = tl inside;
          tokens = take 8 (strtok_all CHR '','' args);
          n = length tokens
      in
      if n < 6 then Skipped
      else
      let dispName = display_name (tokens ! 1);
          area = first_char (skip_blanks (tokens ! 2));
          typ = first_char (skip_blanks (tokens ! 3));
          idx1 = atoi (tokens ! 4);
          idx2 = (if n \<ge> 6 then atoi (tokens ! 5) else 0)
      in LocatedVar dispName (compose_location area typ idx1 idx2))))"

definition located_var_line ::
  "stack_env \<Rightarrow> plc_image \<Rightarrow> UA_NodeId \<Rightarrow> string \<Rightarrow> bridge \<times> int \<times> int \<Rightarrow> bridge \<times> int \<times> int" where
  "located_var_line env img programFolder line loop =
     (case loop of (st, added, seen) \<Rightarrow>
      (case parse_located_var line of
         NoMarker \<Rightarrow> (st, added, seen)
       | Skipped \<Rightarrow> (st, added, seen + 1)
       | LocatedVar dispName location \<Rightarrow>
      (case resolvePointerFromLocation img location of
         None \<Rightarrow> (st, added, seen + 1)
       | Some (ptr, uaType) \<Rightarrow>
           let nid = UA_NODEID_NUMERIC (g_namespace_index st) (nextId st);
               st1 = st\<lparr>nextId := nextId st + 1\<rparr>
           in (addVariableNode env dispName programFolder nid (Some ptr) (Some uaType) st1,
               added + 1, seen + 1))))"

definition hdrCandidates :: "string list" where
  "hdrCandidates =
     [''LOCATED_VARIABLES.h'', ''./LOCATED_VARIABLES.h'', ''core/LOCATED_VARIABLES.h'',
      ''./core/LOCATED_VARIABLES.h'', ''../core/LOCATED_VARIABLES.h'', ''../LOCATED_VARIABLES.h'']"

primrec first_open :: "(string \<Rightarrow> string list option) \<Rightarrow> string list \<Rightarrow> string list option" where
  "first_open fopen [] = None"
| "first_open fopen (path # paths) =
     (case fopen path of None \<Rightarrow> first_open fopen paths | Some ls \<Rightarrow> Some ls)"

definition createNodesFromLocatedVariables :: "stack_env \<Rightarrow> plc_image \<Rightarrow> bridge \<Rightarrow> int \<times> bridge" where
  "createNodesFromLocatedVariables env img st =
     (case createProgramVariablesFolder st of (programFolder, st1) \<Rightarrow>
      (case first_open (fopen_lines env) hdrCandidates of
         None \<Rightarrow> (0, st1)
       | Some ls \<Rightarrow>
           (case foldl (\<lambda>loop line. located_var_line env img programFolder line loop) (st1, 0, 0) ls of
              (st2, added, seen) \<Rightarrow> (added, st2))))"

definition scanAndCreateNodes :: "stack_env \<Rightarrow> plc_image \<Rightarrow> bridge \<Rightarrow> bridge" where
  "scanAndCreateNodes env img st = snd (createNodesFromLocatedVariables env img (createFolderStructure st))"

section \<open>Starting and stopping the server\<close>

definition stopOpcua :: "bridge \<Rightarrow> bridge" where
  "stopOpcua st =
     (if g_opcua_running st then
        let st1 = st\<lparr>g_opcua_running := False\<rparr>
        in if g_opcua_server st1 \<noteq> None
           then (emit [StackCall UA_Server_delete] st1)\<lparr>g_opcua_server := None\<rparr>
           else st1
      else st)"

text \<open>
  \<^verbatim>\<open>opcuaStartServer\<close> up to its run loop. The result says whether the run loop is
  entered (\<open>True\<close>) or the function has returned (\<open>False\<close>).
  \<^verbatim>\<open>logOpen62541AbiInfo\<close> only logs; its call of \<^verbatim>\<open>UA_Server_getConfig\<close> is an event.
\<close>

definition delete_server :: "bridge \<Rightarrow> bridge" where
  "delete_server st = (emit [StackCall UA_Server_delete] st)\<lparr>g_opcua_server := None\<rparr>"

definition opcuaStartServer_startup :: "stack_env \<Rightarrow> plc_image \<Rightarrow> int \<Rightarrow> bridge \<Rightarrow> bool \<times> bridge" where
  "opcuaStartServer_startup env img port st =
     (if g_opcua_running st then (False, st)
      else
      let st1 = (if g_opcua_server st \<noteq> None then delete_server st else st);
          st2 = st1\<lparr>g_opcua_running := False, g_namespace_index := 1\<rparr>;
          st3 = emit [StackCall UA_Server_new] st2
      in
      if \<not> server_new_ok env (events st3) then (False, st3\<lparr>g_opcua_server := None\<rparr>)
      else
      let st4 = emit [StackCall UA_Server_getConfig] (st3\<lparr>g_opcua_server := Some ServerInstance\<rparr>)
      in
      if \<not> getConfig_ok env (events st4) then (False, delete_server st4)
      else
      let st5 = emit [StackCall (UA_ServerConfig_setMinimal (word_of_int port))] st4
      in
      if setMinimal_reply env (events st5) \<noteq> UA_STATUSCODE_GOOD then (False, delete_server st5)
      else
      let st6 = registerNamespace env st5;
          st7 = emit [StackCall UA_Server_getConfig] st6;
          st8 = scanAndCreateNodes env img st7;
          st9 = st8\<lparr>g_opcua_running := True\<rparr>;
          st10 = emit [StackCall UA_Server_run_startup] st9
      in
      if run_startup_reply env (events st10) \<noteq> UA_STATUSCODE_GOOD
      then (False, (delete_server st10)\<lparr>g_opcua_running := False\<rparr>)
      else (True, st10))"

text \<open>
  The run loop \<^verbatim>\<open>while (g_opcua_running) { UA_Server_run_iterate(...); usleep(50000); }\<close>
  ends only when another thread clears the flag. The schedule lists what the other
  threads do during each iteration, run to completion before the flag is tested again;
  it is also the fuel: \<open>None\<close> when the schedule ends with the flag still set.
\<close>

datatype thread_action = Idle | CallStopOpcua | CallUpdateNodeValues bool memory

definition other_thread :: "thread_action \<Rightarrow> bridge \<Rightarrow> bridge" where
  "other_thread a st =
     (case a of
        Idle \<Rightarrow> st
      | CallStopOpcua \<Rightarrow> stopOpcua st
      | CallUpdateNodeValues copy_ok m \<Rightarrow> opcuaUpdateNodeValues copy_ok m st)"

primrec run_loop :: "thread_action list \<Rightarrow> bridge \<Rightarrow> bridge option" where
  "run_loop [] st = (if g_opcua_running st then None else Some st)"
| "run_loop (a # sched) st =
     (if g_opcua_running st
      then run_loop sched (other_thread a (emit [StackCall UA_Server_run_iterate] st))
      else Some st)"

definition opcuaStartServer_shutdown :: "bridge \<Rightarrow> bridge" where
  "opcuaStartServer_shutdown st = (delete_server st)\<lparr>g_opcua_running := False\<rparr>"

definition opcuaStartServer ::
  "stack_env \<Rightarrow> plc_image \<Rightarrow> int \<Rightarrow> thread_action list \<Rightarrow> bridge \<Rightarrow> bridge option" where
  "opcuaStartServer env img port sched st =
     (case opcuaStartServer_startup env img port st of
        (False, st1) \<Rightarrow> Some st1
      | (True, st1) \<Rightarrow> map_option opcuaStartServer_shutdown (run_loop sched st1))"

section \<open>Histories of the bridge\<close>

text \<open>
  The states the bridge can be in: the initial values of the globals, and what the
  entry points make of a reachable state. The parts of \<^verbatim>\<open>opcuaStartServer\<close> are steps
  of their own, so that the states while the run loop is turning are reachable too.
\<close>

inductive reachable :: "bridge \<Rightarrow> bool" where
  reach_init: "reachable bridge_init"
| reach_startup: "reachable st \<Longrightarrow> reachable (snd (opcuaStartServer_startup env img port st))"
| reach_iterate: "reachable st \<Longrightarrow> reachable (emit [StackCall UA_Server_run_iterate] st)"
| reach_shutdown: "reachable st \<Longrightarrow> reachable (opcuaStartServer_shutdown st)"
| reach_stop: "reachable st \<Longrightarrow> reachable (stopOpcua st)"
| reach_update: "reachable st \<Longrightarrow> reachable (opcuaUpdateNodeValues copy_ok m st)"

text \<open>The numeric node ids the bridge has asked the stack to create variable nodes
  for, oldest first.\<close>

fun variable_node_id :: "event \<Rightarrow> 32 word list" where
  "variable_node_id (StackCall (UA_Server_addVariableNode nid parent name t v)) = [numeric nid]"
| "variable_node_id e = []"

definition requested_ids :: "event list \<Rightarrow> 32 word list" where
  "requested_ids es = concat (map variable_node_id es)"

text \<open>The value callbacks the bridge has installed on nodes, the values it has written
  into nodes (with the node ids), and the addresses of PLC memory it has read, each
  oldest first.\<close>

fun value_callback_of :: "event \<Rightarrow> UA_ValueCallback list" where
  "value_callback_of (StackCall (UA_Server_setVariableNode_valueCallback nid cb)) = [cb]"
| "value_callback_of e = []"

definition installed_callbacks :: "event list \<Rightarrow> UA_ValueCallback list" where
  "installed_callbacks es = concat (map value_callback_of es)"

fun node_write_of :: "event \<Rightarrow> (UA_NodeId \<times> UA_Variant) list" where
  "node_write_of (StackCall (UA_Server_writeValue nid v)) = [(nid, v)]"
| "node_write_of e = []"

definition node_writes :: "event list \<Rightarrow> (UA_NodeId \<times> UA_Variant) list" where
  "node_writes es = concat (map node_write_of es)"

fun image_read_of :: "event \<Rightarrow> addr list" where
  "image_read_of (ReadMem p) = [p]"
| "image_read_of e = []"

definition image_reads :: "event list \<Rightarrow> addr list" where
  "image_reads es = concat (map image_read_of es)"

text \<open>The invariant of the installed callbacks: each is the one of \<^verbatim>\<open>addVariableNode\<close>.\<close>

definition callbacks_write_only :: "bridge \<Rightarrow> bool" where
  "callbacks_write_only st =
     (\<forall>cb \<in> set (installed_callbacks (events st)). cb = node_value_callback)"

text \<open>The events a step added to the history.\<close>

definition new_events :: "bridge \<Rightarrow> bridge \<Rightarrow> event list" where
  "new_events st st' = drop (length (events st)) (events st')"

text \<open>
  Lock discipline of a sequence of events, read from a state in which the lock is held
  or not (\<open>held\<close>): no call into the stack is made while the lock is held
  (\<open>stack_calls_outside\<close>), every call into the stack is made while it is held
  (\<open>stack_calls_inside\<close>).
\<close>

fun stack_calls_outside :: "lock \<Rightarrow> bool \<Rightarrow> event list \<Rightarrow> bool" where
  "stack_calls_outside l held [] = True"
| "stack_calls_outside l held (Lock l' # es) = stack_calls_outside l (held \<or> l' = l) es"
| "stack_calls_outside l held (Unlock l' # es) = stack_calls_outside l (held \<and> l' \<noteq> l) es"
| "stack_calls_outside l held (StackCall c # es) = (\<not> held \<and> stack_calls_outside l held es)"
| "stack_calls_outside l held (e # es) = stack_calls_outside l held es"

fun stack_calls_inside :: "lock \<Rightarrow> bool \<Rightarrow> event list \<Rightarrow> bool" where
  "stack_calls_inside l held [] = True"
| "stack_calls_inside l held (Lock l' # es) = stack_calls_inside l (held \<or> l' = l) es"
| "stack_calls_inside l held (Unlock l' # es) = stack_calls_inside l (held \<and> l' \<noteq> l) es"
| "stack_calls_inside l held (StackCall c # es) = (held \<and> stack_calls_inside l held es)"
| "stack_calls_inside l held (e # es) = stack_calls_inside l held es"

section \<open>Example inputs\<close>

text \<open>A process image with no variable allocated, and one with \<^verbatim>\<open>%IW5\<close> and
  \<^verbatim>\<open>%QX0.1\<close> allocated at addresses 105 and 201.\<close>

definition no_image :: plc_image where
  "no_image =
     \<lparr>BUFFER_SIZE = 1024,
      bool_input = (\<lambda>i b. None), bool_output = (\<lambda>i b. None),
      byte_input = (\<lambda>i. None), byte_output = (\<lambda>i. None),
      int_input = (\<lambda>i. None), int_output = (\<lambda>i. None),
      dint_input = (\<lambda>i. None), dint_output = (\<lambda>i. None),
      lint_input = (\<lambda>i. None), lint_output = (\<lambda>i. None),
      real_input = (\<lambda>i. None), real_output = (\<lambda>i. None),
      lreal_input = (\<lambda>i. None), lreal_output = (\<lambda>i. None),
      int_memory = (\<lambda>i. None), dint_memory = (\<lambda>i. None),
      lint_memory = (\<lambda>i. None), real_memory = (\<lambda>i. None),
      lreal_memory = (\<lambda>i. None)\<rparr>"

definition example_image :: plc_image where
  "example_image =
     no_image\<lparr>int_input := (\<lambda>i. if i = 5 then Some 105 else None),
              bool_output := (\<lambda>i b. if i = 0 \<and> b = 1 then Some 201 else None)\<rparr>"

text \<open>A stack that succeeds in everything and registers the namespace under index
  \<open>ns\<close>, with the manifest \<open>ls\<close> in the current directory.\<close>

definition obliging_stack :: "16 word \<Rightarrow> string list \<Rightarrow> stack_env" where
  "obliging_stack ns ls =
     \<lparr>server_new_ok = (\<lambda>es. True), getConfig_ok = (\<lambda>es. True),
      setMinimal_reply = (\<lambda>es. UA_STATUSCODE_GOOD), addNamespace_reply = (\<lambda>es. ns),
      addVariableNode_reply = (\<lambda>es. UA_STATUSCODE_GOOD),
      run_startup_reply = (\<lambda>es. UA_STATUSCODE_GOOD), malloc_ok = (\<lambda>es. True),
      fopen_lines = (\<lambda>path. if path = ''LOCATED_VARIABLES.h'' then Some ls else None)\<rparr>"

definition example_memory :: memory where
  "example_memory = (\<lambda>a. if a = 201 then Boolean True else UInt16 0)"

text \<open>The binding of \<^verbatim>\<open>%IW5\<close> with a shadow cell at address 305, a data value the
  handlers have not filled in, and client writes of a UInt16 and of a UInt32.\<close>

definition iw5_binding :: OpcVarBinding where
  "iw5_binding = \<lparr>b_variablePtr = Some 105, b_dataType = Some UA_TYPES_UINT16, shadowPtr = Some 305\<rparr>"

definition iw5_info :: OpcNodeInfo where
  "iw5_info = \<lparr>nodeId = UA_NODEID_NUMERIC 2 4000000, variablePtr = Some 105, dataType = Some UA_TYPES_UINT16\<rparr>"

definition blank_data_value :: UA_DataValue where
  "blank_data_value =
     \<lparr>dv_value = empty_variant, hasValue = False, hasStatus = False,
      status = UA_STATUSCODE_GOOD, hasSourceTimestamp = False\<rparr>"

definition client_write :: "ua_type \<Rightarrow> scalar \<Rightarrow> UA_DataValue" where
  "client_write t x = blank_data_value\<lparr>dv_value := scalar_variant t x, hasValue := True\<rparr>"

text \<open>The manifest line of \<^verbatim>\<open>%QX0.1\<close>, and the bridge after a first start with this
  manifest has reached its run loop.\<close>

definition qx_line :: string where
  "qx_line = ''__LOCATED_VAR(BOOL,__QX0_1,Q,X,0,1)''"

definition running_example :: bridge where
  "running_example =
     snd (opcuaStartServer_startup (obliging_stack 2 [qx_line]) example_image 4840 bridge_init)"


definition iw5x_line :: string where
  "iw5x_line = ''__LOCATED_VAR(UINT,__IW5,I,W,5,0)''"

definition qx_second_info :: OpcNodeInfo where
  "qx_second_info = \<lparr>nodeId = UA_NODEID_NUMERIC 2 4000001, variablePtr = Some 201, dataType = Some UA_TYPES_BOOLEAN\<rparr>"

definition two_node_example :: bridge where
  "two_node_example =
     snd (opcuaStartServer_startup (obliging_stack 2 [iw5x_line, qx_line]) example_image 4840 bridge_init)"

definition beef_memory :: memory where
  "beef_memory = example_memory(105 := UInt16 0xBEEF)"

text \<open>The events of the periodic update between taking and releasing its lock: reads
  of PLC memory and \<^verbatim>\<open>UA_Server_writeValue\<close>.\<close>

fun is_update_event :: "event \<Rightarrow> bool" where
  "is_update_event (ReadMem p) = True"
| "is_update_event (StackCall (UA_Server_writeValue nid v)) = True"
| "is_update_event e = False"

text \<open>A manifest line for \<^verbatim>\<open>%MB0\<close>, the bridge after a start on which the namespace is
  registered under index 0, the bridge after a first run that another thread stopped
  during the first turn of the run loop, and the bridge when a second start after that
  has reached its run loop.\<close>

definition mb0_line :: string where
  "mb0_line = ''__LOCATED_VAR(BYTE,__MB0,M,B,0,0)''"

definition namespace_zero_example :: "bool \<times> bridge" where
  "namespace_zero_example =
     opcuaStartServer_startup (obliging_stack 0 [qx_line]) example_image 4840 bridge_init"

definition stopped_example :: "bridge option" where
  "stopped_example =
     opcuaStartServer (obliging_stack 2 [qx_line]) example_image 4840 [CallStopOpcua] bridge_init"

definition restarted_example :: "bridge option" where
  "restarted_example =
     map_option (\<lambda>st. snd (opcuaStartServer_startup (obliging_stack 2 [qx_line]) example_image 4840 st))
       stopped_example"

text \<open>A stack that succeeds in everything but refuses every variable node, and the
  bridge after two starts: a first run on that stack with a manifest of 2147483647
  lines, stopped by another thread during the first turn of the run loop, then a start
  on the obliging stack with a manifest of 2143483650 lines.\<close>

definition refusing_stack :: "16 word \<Rightarrow> string list \<Rightarrow> stack_env" where
  "refusing_stack ns ls =
     (obliging_stack ns ls)\<lparr>addVariableNode_reply := (\<lambda>es. UA_STATUSCODE_BADNODEIDEXISTS)\<rparr>"

definition wrapped_example :: "bridge option" where
  "wrapped_example =
     map_option
       (\<lambda>st. snd (opcuaStartServer_startup (obliging_stack 2 (replicate 2143483650 qx_line))
                    example_image 4840 st))
       (opcuaStartServer (refusing_stack 2 (replicate 2147483647 qx_line)) example_image 4840
          [CallStopOpcua] bridge_init)"


text \<open>The globals a restart is judged by.\<close>

definition bridge_summary :: "bridge \<Rightarrow> server option \<times> bool \<times> int \<times> OpcNodeInfo list" where
  "bridge_summary st = (g_opcua_server st, g_opcua_running st, g_node_count st, g_node_list st)"

text \<open>What the resolver reads from a location token: the area letter, the width
  letter, the index, and the bit after the first dot, the last two as the C \<^verbatim>\<open>int\<close>s
  \<^verbatim>\<open>atoi\<close> returns.\<close>

definition location_area :: "string \<Rightarrow> char" where
  "location_area location = nth_char location 1"

definition location_width :: "string \<Rightarrow> char" where
  "location_width location = nth_char location 2"

definition location_index :: "string \<Rightarrow> int" where
  "location_index location = atoi (drop 3 location)"

definition location_bit :: "string \<Rightarrow> int option" where
  "location_bit location =
     (case strchr (drop 3 location) CHR ''.'' of None \<Rightarrow> None | Some d \<Rightarrow> Some (atoi (tl d)))"

text \<open>The invariant of the node list: no record with a NULL pointer or a NULL type.\<close>

definition node_list_guarded :: "bridge \<Rightarrow> bool" where
  "node_list_guarded st =
     (\<forall>info \<in> set (g_node_list st). variablePtr info \<noteq> None \<and> dataType info \<noteq> None)"

text \<open>The numeric ids of the variable nodes the bridge has created and registered
  on \<^verbatim>\<open>g_node_list\<close>, oldest first (the list is pushed at its head).\<close>

definition created_ids :: "bridge \<Rightarrow> 32 word list" where
  "created_ids st = rev (map (\<lambda>info. numeric (nodeId info)) (g_node_list st))"

text \<open>The \<open>k\<close>-th id the counter hands out: 4000000 + \<open>k\<close> in 32-bit arithmetic.\<close>

definition nth_id :: "nat \<Rightarrow> 32 word" where
  "nth_id k = word_of_nat (4000000 + k)"

text \<open>The invariant of the id counter: the ids asked for so far are the first \<open>n\<close>
  ids in order, the counter is the next one, and the registered nodes have some of
  those ids, in the order they were handed out.\<close>

definition ids_consecutive :: "bridge \<Rightarrow> bool" where
  "ids_consecutive st =
     (\<exists>n ks. requested_ids (events st) = map nth_id [0..<n]
          \<and> nextId st = nth_id n
          \<and> created_ids st = map nth_id ks
          \<and> sorted_wrt (<) ks \<and> (\<forall>k \<in> set ks. k < n))"

text \<open>The registered nodes have strictly increasing ids.\<close>

definition ids_increasing :: "bridge \<Rightarrow> bool" where
  "ids_increasing st = sorted_wrt (<) (created_ids st)"

section \<open>The read and write handlers: lemmas\<close>



lemma readVariableValue_shadow:
  assumes "b_dataType binding = Some t" and "is_bridge_type t" and "shadowPtr binding = Some sp"
  shows "readVariableValue copy_ok (Some binding) (Some dv) m = read_shadow copy_ok t sp m dv"
  using assms by (auto simp: readVariableValue_def is_bridge_type_def)






section \<open>The example manifests\<close>

lemma parse_qx: "parse_located_var qx_line = LocatedVar ''QX0_1'' ''%QX0.1''"
  by (simp add: qx_line_def parse_located_var_def NUL_def strtok_all_def display_name_def
      skip_blanks_def first_char_def atoi_def strtol_def
      int_of_long_def decimal_value_def isspace_def digit_val_def compose_location_def
      show_int_def digit_char_def nth_char_def Let_def)

lemma resolve_qx:
  "resolvePointerFromLocation example_image ''%QX0.1'' = Some (201, UA_TYPES_BOOLEAN)"
  by (simp add: resolvePointerFromLocation_def nth_char_def atoi_def strtol_def
      int_of_long_def decimal_value_def isspace_def digit_val_def
      Let_def slot_def example_image_def no_image_def NUL_def)

lemma line_qx:
  "located_var_line env example_image folder qx_line (st, added, seen) =
     (addVariableNode env ''QX0_1'' folder (UA_NODEID_NUMERIC (g_namespace_index st) (nextId st))
        (Some 201) (Some UA_TYPES_BOOLEAN) (st\<lparr>nextId := nextId st + 1\<rparr>), added + 1, seen + 1)"
  by (simp add: located_var_line_def parse_qx resolve_qx)

lemma resolve_iw5:
  "resolvePointerFromLocation example_image ''%IW5'' = Some (105, UA_TYPES_UINT16)"
  by (simp add: resolvePointerFromLocation_def nth_char_def atoi_def strtol_def
      int_of_long_def decimal_value_def isspace_def digit_val_def
      Let_def slot_def example_image_def no_image_def NUL_def)

lemma six_field_line_accepted:
  "parse_located_var ''__LOCATED_VAR(UINT,__IW5,I,W,5,0)'' = LocatedVar ''IW5'' ''%IW5''"
  by (simp add: parse_located_var_def NUL_def strtok_all_def display_name_def
      skip_blanks_def first_char_def atoi_def strtol_def
      int_of_long_def decimal_value_def isspace_def digit_val_def compose_location_def
      show_int_def digit_char_def nth_char_def Let_def)

lemma line_iw5x:
  "located_var_line env example_image folder iw5x_line (st, added, seen) =
     (addVariableNode env ''IW5'' folder (UA_NODEID_NUMERIC (g_namespace_index st) (nextId st))
        (Some 105) (Some UA_TYPES_UINT16) (st\<lparr>nextId := nextId st + 1\<rparr>), added + 1, seen + 1)"
  by (simp add: located_var_line_def iw5x_line_def six_field_line_accepted resolve_iw5)

lemmas startup_defs = opcuaStartServer_startup_def Let_def scanAndCreateNodes_def
  createNodesFromLocatedVariables_def createProgramVariablesFolder_def
  createFolderStructure_def registerNamespace_def hdrCandidates_def line_qx
  addVariableNode_def emit_def obliging_stack_def bridge_init_def UA_NODEID_NUMERIC_def
  delete_server_def

lemma running_example_state:
  "g_opcua_server running_example = Some ServerInstance \<and> g_opcua_running running_example
   \<and> g_node_list running_example =
       [\<lparr>nodeId = UA_NODEID_NUMERIC 2 4000000, variablePtr = Some 201,
         dataType = Some UA_TYPES_BOOLEAN\<rparr>]"
  by (simp add: running_example_def opcuaStartServer_startup_def Let_def scanAndCreateNodes_def
      createNodesFromLocatedVariables_def createProgramVariablesFolder_def
      createFolderStructure_def registerNamespace_def hdrCandidates_def line_qx
      addVariableNode_def emit_def obliging_stack_def bridge_init_def UA_NODEID_NUMERIC_def)

lemma two_node_example_state:
  "g_opcua_server two_node_example = Some ServerInstance \<and> g_opcua_running two_node_example
   \<and> g_node_list two_node_example = [qx_second_info, iw5_info]"
  by (simp add: two_node_example_def startup_defs line_iw5x qx_second_info_def iw5_info_def)

lemma reachable_running_example: "reachable running_example"
  unfolding running_example_def by (rule reach_startup[OF reach_init])

lemma reachable_two_node_example: "reachable two_node_example"
  unfolding two_node_example_def by (rule reach_startup[OF reach_init])


section \<open>The node list: theorems\<close>

lemma guarded_emit [simp]: "node_list_guarded (emit es st) = node_list_guarded st"
  by (simp add: node_list_guarded_def emit_def)

lemma guarded_addVariableNode:
  "node_list_guarded st \<Longrightarrow> node_list_guarded (addVariableNode env name folder nid p t st)"
  by (auto simp: addVariableNode_def node_list_guarded_def emit_def Let_def split: option.splits)

lemma guarded_line:
  "node_list_guarded (fst loop) \<Longrightarrow>
     node_list_guarded (fst (located_var_line env img folder line loop))"
proof -
  assume g: "node_list_guarded (fst loop)"
  obtain st added seen where loop: "loop = (st, added, seen)" by (cases loop) auto
  have "node_list_guarded (st\<lparr>nextId := nextId st + 1\<rparr>)"
    using g loop by (simp add: node_list_guarded_def)
  then show ?thesis
    using g loop
    by (auto simp: located_var_line_def Let_def guarded_addVariableNode
        split: parsed_line.splits option.splits)
qed

lemma guarded_lines:
  "node_list_guarded (fst loop) \<Longrightarrow>
     node_list_guarded (fst (foldl (\<lambda>loop line. located_var_line env img folder line loop) loop ls))"
  by (induction ls arbitrary: loop) (simp_all add: guarded_line)

lemma guarded_createNodes:
  assumes g: "node_list_guarded st"
  shows "node_list_guarded (snd (createNodesFromLocatedVariables env img st))"
proof -
  obtain folder st1 where f: "createProgramVariablesFolder st = (folder, st1)"
    by (cases "createProgramVariablesFolder st") auto
  have g1: "node_list_guarded st1"
    using g f by (auto simp: createProgramVariablesFolder_def Let_def)
  show ?thesis
  proof (cases "first_open (fopen_lines env) hdrCandidates")
    case None
    then show ?thesis using g1 f by (simp add: createNodesFromLocatedVariables_def)
  next
    case (Some ls)
    have "node_list_guarded
            (fst (foldl (\<lambda>loop line. located_var_line env img folder line loop) (st1, 0, 0) ls))"
      using g1 by (intro guarded_lines) simp
    then show ?thesis using Some f
      by (auto simp: createNodesFromLocatedVariables_def split: prod.splits)
  qed
qed

lemma guarded_scan:
  "node_list_guarded st \<Longrightarrow> node_list_guarded (scanAndCreateNodes env img st)"
  by (simp add: scanAndCreateNodes_def guarded_createNodes createFolderStructure_def Let_def)

lemma guarded_fields [simp]:
  "node_list_guarded (st\<lparr>g_opcua_running := r\<rparr>) = node_list_guarded st"
  "node_list_guarded (st\<lparr>g_opcua_server := sv\<rparr>) = node_list_guarded st"
  "node_list_guarded (st\<lparr>g_namespace_index := ns\<rparr>) = node_list_guarded st"
  by (simp_all add: node_list_guarded_def)

lemma guarded_delete [simp]: "node_list_guarded (delete_server st) = node_list_guarded st"
  by (simp add: delete_server_def)

lemma guarded_register [simp]: "node_list_guarded (registerNamespace env st) = node_list_guarded st"
  by (simp add: registerNamespace_def Let_def)

lemma guarded_startup:
  "node_list_guarded st \<Longrightarrow> node_list_guarded (snd (opcuaStartServer_startup env img port st))"
  by (simp add: opcuaStartServer_startup_def Let_def guarded_scan)

lemma guarded_stop: "node_list_guarded st \<Longrightarrow> node_list_guarded (stopOpcua st)"
  by (simp add: stopOpcua_def Let_def)

lemma guarded_shutdown: "node_list_guarded st \<Longrightarrow> node_list_guarded (opcuaStartServer_shutdown st)"
  by (simp add: opcuaStartServer_shutdown_def)

lemma guarded_update: "node_list_guarded st \<Longrightarrow> node_list_guarded (opcuaUpdateNodeValues copy_ok m st)"
  by (simp add: opcuaUpdateNodeValues_def)

lemma reachable_guarded: "reachable st \<Longrightarrow> node_list_guarded st"
proof (induction rule: reachable.induct)
  case reach_init
  show ?case by (simp add: node_list_guarded_def bridge_init_def)
qed (simp_all add: guarded_startup guarded_stop guarded_shutdown guarded_update)

lemma onVariableValueWrite_no_fault: "onVariableValueWrite nodeContext data m \<noteq> Inl f"
  by (auto simp: onVariableValueWrite_def store_image_def split: option.splits variant_data.splits)

lemma onVariableValueWrite_null:
  assumes "nodeContext = None \<or> (\<exists>info. nodeContext = Some info \<and> (variablePtr info = None \<or> dataType info = None))"
  shows "onVariableValueWrite nodeContext data m = Inr (m, [])"
  using assms by (auto simp: onVariableValueWrite_def split: option.splits variant_data.splits)


text \<open>
  Claim C9. \<^verbatim>\<open>addVariableNode\<close> returns at once on a NULL pointer or a NULL type, so in
  every state the bridge can reach each record of the node list has a pointer and a
  type that are not NULL. The installed write callback \<^verbatim>\<open>onVariableValueWrite\<close> never
  stores through a NULL pointer, whatever it is called with, and when the node context
  is NULL, or its pointer or its type is, it returns with the memory as it was and
  without an event.
\<close>

theorem node_list_and_write_callback_null_safe:
  "addVariableNode env name folder nid None t st = st
   \<and> addVariableNode env name folder nid p None st = st
   \<and> (reachable st \<longrightarrow> node_list_guarded st)
   \<and> (\<forall>f. onVariableValueWrite nodeContext data m \<noteq> Inl f)
   \<and> (nodeContext = None
        \<or> (\<exists>info. nodeContext = Some info \<and> (variablePtr info = None \<or> dataType info = None))
      \<longrightarrow> onVariableValueWrite nodeContext data m = Inr (m, []))"
proof -
  have "addVariableNode env name folder nid None t st = st"
    by (simp add: addVariableNode_def)
  moreover have "addVariableNode env name folder nid p None st = st"
    by (simp add: addVariableNode_def split: option.splits)
  ultimately show ?thesis
    using reachable_guarded onVariableValueWrite_no_fault onVariableValueWrite_null by blast
qed

theorem node_list_and_write_callback_null_safe_witness:
  "reachable running_example \<and> node_list_guarded running_example
   \<and> g_node_list running_example =
       [\<lparr>nodeId = UA_NODEID_NUMERIC 2 4000000, variablePtr = Some 201,
         dataType = Some UA_TYPES_BOOLEAN\<rparr>]
   \<and> onVariableValueWrite None (Some (client_write UA_TYPES_BOOLEAN (Boolean True)))
        example_memory = Inr (example_memory, [])
   \<and> onVariableValueWrite
        (Some \<lparr>nodeId = UA_NODEID_NUMERIC 2 4000000, variablePtr = None,
               dataType = Some UA_TYPES_BOOLEAN\<rparr>)
        (Some (client_write UA_TYPES_BOOLEAN (Boolean True))) example_memory =
       Inr (example_memory, [])"
  using node_list_and_write_callback_null_safe [of _ _ _ _ _ running_example _ None
      "Some (client_write UA_TYPES_BOOLEAN (Boolean True))" example_memory]
    node_list_and_write_callback_null_safe [of _ _ _ _ _ running_example _
      "Some \<lparr>nodeId = UA_NODEID_NUMERIC 2 4000000, variablePtr = None,
             dataType = Some UA_TYPES_BOOLEAN\<rparr>"
      "Some (client_write UA_TYPES_BOOLEAN (Boolean True))" example_memory]
    reachable_running_example running_example_state
  by simp

section \<open>The periodic update: theorems\<close>

lemma update_node_events: "e \<in> set (update_node copy_ok m it) \<Longrightarrow> is_update_event e"
  by (auto simp: update_node_def split: option.splits if_splits)

lemma update_nodes_events: "e \<in> set (update_nodes copy_ok m its) \<Longrightarrow> is_update_event e"
  by (induction its) (auto dest: update_node_events)

lemma update_events_outside:
  "\<forall>e\<in>set body. is_update_event e \<Longrightarrow>
     stack_calls_outside l False (body @ rest) = stack_calls_outside l False rest"
proof (induction body)
  case Nil
  then show ?case by simp
next
  case (Cons e body)
  then show ?case by (cases e rule: is_update_event.cases) auto
qed

lemma update_events_inside:
  "\<forall>e\<in>set body. is_update_event e \<Longrightarrow>
     stack_calls_inside l True (body @ rest) = stack_calls_inside l True rest"
proof (induction body)
  case Nil
  then show ?case by simp
next
  case (Cons e body)
  then show ?case by (cases e rule: is_update_event.cases) auto
qed

lemma update_events_no_lock:
  "\<forall>e\<in>set body. is_update_event e \<Longrightarrow> Lock l \<notin> set body \<and> Unlock l \<notin> set body"
  by auto

lemma update_nodes_append:
  "update_nodes copy_ok m (xs @ ys) = update_nodes copy_ok m xs @ update_nodes copy_ok m ys"
  by (induction xs) simp_all

lemma node_writes_append [simp]: "node_writes (a @ b) = node_writes a @ node_writes b"
  by (simp add: node_writes_def)

lemma node_writes_Nil [simp]: "node_writes [] = []"
  by (simp add: node_writes_def)

lemma node_writes_Cons: "node_writes (e # es) = node_write_of e @ node_writes es"
  by (simp add: node_writes_def)

lemma image_reads_append [simp]: "image_reads (a @ b) = image_reads a @ image_reads b"
  by (simp add: image_reads_def)

lemma image_reads_Nil [simp]: "image_reads [] = []"
  by (simp add: image_reads_def)

lemma image_reads_Cons: "image_reads (e # es) = image_read_of e @ image_reads es"
  by (simp add: image_reads_def)

lemma node_writes_update_nodes:
  "node_writes (update_nodes copy_ok m its) =
     map (\<lambda>it. (nodeId it,
                if is_bridge_type (the (dataType it)) \<and> copy_ok
                then scalar_variant (the (dataType it)) (m (the (variablePtr it)))
                else empty_variant))
       (filter (\<lambda>it. variablePtr it \<noteq> None \<and> dataType it \<noteq> None) its)"
  by (induction its)
     (auto simp: update_node_def node_writes_Cons UA_Variant_setScalarCopy_def
        split: option.splits)

lemma image_reads_update_nodes:
  "image_reads (update_nodes copy_ok m its) =
     map (\<lambda>it. the (variablePtr it))
       (filter (\<lambda>it. variablePtr it \<noteq> None \<and> dataType it \<noteq> None
                      \<and> is_bridge_type (the (dataType it))) its)"
  by (induction its) (auto simp: update_node_def image_reads_Cons split: option.splits)

lemma update_nodes_each:
  assumes "it \<in> set its" and "variablePtr it = Some p" and "dataType it = Some t"
    and "is_bridge_type t"
  shows "\<exists>before after. update_nodes copy_ok m its =
           before @ [ReadMem p,
                     StackCall (UA_Server_writeValue (nodeId it)
                       (if copy_ok then scalar_variant t (m p) else empty_variant))] @ after"
proof -
  from assms(1) obtain xs ys where its: "its = xs @ it # ys"
    by (auto dest: split_list)
  have "update_node copy_ok m it =
      [ReadMem p,
       StackCall (UA_Server_writeValue (nodeId it)
         (if copy_ok then scalar_variant t (m p) else empty_variant))]"
    using assms(2-4) by (simp add: update_node_def UA_Variant_setScalarCopy_def)
  then have "update_nodes copy_ok m its =
      update_nodes copy_ok m xs @ [ReadMem p,
       StackCall (UA_Server_writeValue (nodeId it)
         (if copy_ok then scalar_variant t (m p) else empty_variant))] @ update_nodes copy_ok m ys"
    by (simp add: its update_nodes_append)
  then show ?thesis by blast
qed

lemma is_bridge_type_named: "is_bridge_type t = (\<forall>k. t \<noteq> UA_TYPES_OTHER k)"
  by (cases t) (simp_all add: is_bridge_type_def)

text \<open>
  Claim C5, as the code has it. The claim: the publisher takes the scan lock
  (\<^verbatim>\<open>bufferLock\<close>) while it copies the image to the shadow, releases it, and only then
  writes into the protocol nodes, and the bridge lock is never held across a call into
  the stack. \<^verbatim>\<open>opcuaUpdateNodeValues\<close> on a running server takes \<^verbatim>\<open>opcua_mutex\<close> (the
  bridge lock) once and releases it last. Between the two there are only reads of the
  image and writes into nodes: it never takes \<^verbatim>\<open>bufferLock\<close> (so it makes no call into
  the stack holding it), every call into the stack is made holding \<^verbatim>\<open>opcua_mutex\<close>, and
  no shadow is written. For each node of the list whose pointer and type are not NULL
  and whose type is one of the eleven, the image cell is read and at once written into
  that node, as a scalar of the node's type when the stack can allocate the copy and
  as an empty variant otherwise. The writes into nodes are one for each node whose
  pointer and type are not NULL, in the order of the list, and nothing else; in every
  state the bridge can reach that is one write for every node of the list. The eleven
  types are all but the unnamed entries of the type table.
\<close>

theorem publisher_takes_bridge_lock_only:
  assumes "g_opcua_server st \<noteq> None" and "g_opcua_running st"
  shows "new_events st (opcuaUpdateNodeValues copy_ok m st) =
           Lock opcua_mutex # update_nodes copy_ok m (g_node_list st) @ [Unlock opcua_mutex]
         \<and> (\<forall>e \<in> set (update_nodes copy_ok m (g_node_list st)). is_update_event e)
         \<and> Lock bufferLock \<notin> set (new_events st (opcuaUpdateNodeValues copy_ok m st))
         \<and> stack_calls_outside bufferLock False (new_events st (opcuaUpdateNodeValues copy_ok m st))
         \<and> stack_calls_inside opcua_mutex False (new_events st (opcuaUpdateNodeValues copy_ok m st))
         \<and> (\<forall>it \<in> set (g_node_list st). \<forall>p t.
               variablePtr it = Some p \<and> dataType it = Some t \<and> is_bridge_type t \<longrightarrow>
               (\<exists>before after.
                  new_events st (opcuaUpdateNodeValues copy_ok m st) =
                    Lock opcua_mutex # before
                    @ [ReadMem p,
                       StackCall (UA_Server_writeValue (nodeId it)
                         (if copy_ok then scalar_variant t (m p) else empty_variant))]
                    @ after @ [Unlock opcua_mutex]))
         \<and> node_writes (new_events st (opcuaUpdateNodeValues copy_ok m st)) =
             map (\<lambda>it. (nodeId it,
                        if is_bridge_type (the (dataType it)) \<and> copy_ok
                        then scalar_variant (the (dataType it)) (m (the (variablePtr it)))
                        else empty_variant))
               (filter (\<lambda>it. variablePtr it \<noteq> None \<and> dataType it \<noteq> None) (g_node_list st))
         \<and> image_reads (new_events st (opcuaUpdateNodeValues copy_ok m st)) =
             map (\<lambda>it. the (variablePtr it))
               (filter (\<lambda>it. variablePtr it \<noteq> None \<and> dataType it \<noteq> None
                              \<and> is_bridge_type (the (dataType it))) (g_node_list st))
         \<and> (reachable st \<longrightarrow>
               map fst (node_writes (new_events st (opcuaUpdateNodeValues copy_ok m st))) =
                 map nodeId (g_node_list st))
         \<and> is_bridge_type ty = (\<forall>k. ty \<noteq> UA_TYPES_OTHER k)"
proof -
  let ?body = "update_nodes copy_ok m (g_node_list st)"
  let ?new = "new_events st (opcuaUpdateNodeValues copy_ok m st)"
  have new: "?new = Lock opcua_mutex # ?body @ [Unlock opcua_mutex]"
    using assms by (simp add: new_events_def opcuaUpdateNodeValues_def emit_def)
  have body: "\<forall>e \<in> set ?body. is_update_event e"
    by (simp add: update_nodes_events)
  have nolock: "Lock bufferLock \<notin> set ?body"
    using update_events_no_lock[OF body] by simp
  have out: "stack_calls_outside bufferLock False (Lock opcua_mutex # ?body @ [Unlock opcua_mutex])"
    using update_events_outside[OF body] by simp
  have ins: "stack_calls_inside opcua_mutex False (Lock opcua_mutex # ?body @ [Unlock opcua_mutex])"
    using update_events_inside[OF body] by simp
  have each: "\<forall>it \<in> set (g_node_list st). \<forall>p t.
      variablePtr it = Some p \<and> dataType it = Some t \<and> is_bridge_type t \<longrightarrow>
      (\<exists>before after.
         ?new = Lock opcua_mutex # before
           @ [ReadMem p,
              StackCall (UA_Server_writeValue (nodeId it)
                (if copy_ok then scalar_variant t (m p) else empty_variant))]
           @ after @ [Unlock opcua_mutex])"
  proof (intro ballI allI impI)
    fix it p t
    assume it: "it \<in> set (g_node_list st)"
      and pt: "variablePtr it = Some p \<and> dataType it = Some t \<and> is_bridge_type t"
    from update_nodes_each[OF it, of p t copy_ok m] pt obtain before after where
      "?body = before @ [ReadMem p,
          StackCall (UA_Server_writeValue (nodeId it)
            (if copy_ok then scalar_variant t (m p) else empty_variant))] @ after"
      by blast
    then have "?new = Lock opcua_mutex # before
           @ [ReadMem p,
              StackCall (UA_Server_writeValue (nodeId it)
                (if copy_ok then scalar_variant t (m p) else empty_variant))]
           @ after @ [Unlock opcua_mutex]"
      using new by simp
    then show "\<exists>before after.
         ?new = Lock opcua_mutex # before
           @ [ReadMem p,
              StackCall (UA_Server_writeValue (nodeId it)
                (if copy_ok then scalar_variant t (m p) else empty_variant))]
           @ after @ [Unlock opcua_mutex]"
      by blast
  qed
  have writes: "node_writes ?new =
      map (\<lambda>it. (nodeId it,
                 if is_bridge_type (the (dataType it)) \<and> copy_ok
                 then scalar_variant (the (dataType it)) (m (the (variablePtr it)))
                 else empty_variant))
        (filter (\<lambda>it. variablePtr it \<noteq> None \<and> dataType it \<noteq> None) (g_node_list st))"
    by (simp add: new node_writes_Cons node_writes_update_nodes)
  have reads: "image_reads ?new =
      map (\<lambda>it. the (variablePtr it))
        (filter (\<lambda>it. variablePtr it \<noteq> None \<and> dataType it \<noteq> None
                       \<and> is_bridge_type (the (dataType it))) (g_node_list st))"
    by (simp add: new image_reads_Cons image_reads_update_nodes)
  have all: "reachable st \<longrightarrow> map fst (node_writes ?new) = map nodeId (g_node_list st)"
  proof
    assume "reachable st"
    then have "node_list_guarded st"
      by (rule reachable_guarded)
    then have "filter (\<lambda>it. variablePtr it \<noteq> None \<and> dataType it \<noteq> None) (g_node_list st) =
        g_node_list st"
      by (simp add: node_list_guarded_def)
    then show "map fst (node_writes ?new) = map nodeId (g_node_list st)"
      by (simp add: writes comp_def)
  qed
  have named: "is_bridge_type ty = (\<forall>k. ty \<noteq> UA_TYPES_OTHER k)"
    by (rule is_bridge_type_named)
  from new body nolock out ins have first:
    "?new = Lock opcua_mutex # ?body @ [Unlock opcua_mutex]
     \<and> (\<forall>e \<in> set ?body. is_update_event e)
     \<and> Lock bufferLock \<notin> set ?new
     \<and> stack_calls_outside bufferLock False ?new
     \<and> stack_calls_inside opcua_mutex False ?new"
    by simp
  show ?thesis
    using first each writes reads all named by blast
qed

theorem publisher_takes_bridge_lock_only_witness:
  "g_opcua_server two_node_example \<noteq> None \<and> g_opcua_running two_node_example
   \<and> reachable two_node_example
   \<and> g_node_list two_node_example =
       [\<lparr>nodeId = UA_NODEID_NUMERIC 2 4000001, variablePtr = Some 201,
         dataType = Some UA_TYPES_BOOLEAN\<rparr>,
        \<lparr>nodeId = UA_NODEID_NUMERIC 2 4000000, variablePtr = Some 105,
         dataType = Some UA_TYPES_UINT16\<rparr>]
   \<and> new_events two_node_example (opcuaUpdateNodeValues True beef_memory two_node_example) =
       [Lock opcua_mutex,
        ReadMem 201,
        StackCall (UA_Server_writeValue (UA_NODEID_NUMERIC 2 4000001)
                     (scalar_variant UA_TYPES_BOOLEAN (Boolean True))),
        ReadMem 105,
        StackCall (UA_Server_writeValue (UA_NODEID_NUMERIC 2 4000000)
                     (scalar_variant UA_TYPES_UINT16 (UInt16 0xBEEF))),
        Unlock opcua_mutex]
   \<and> node_writes (new_events two_node_example
                    (opcuaUpdateNodeValues True beef_memory two_node_example)) =
       [(UA_NODEID_NUMERIC 2 4000001, scalar_variant UA_TYPES_BOOLEAN (Boolean True)),
        (UA_NODEID_NUMERIC 2 4000000, scalar_variant UA_TYPES_UINT16 (UInt16 0xBEEF))]
   \<and> image_reads (new_events two_node_example
                    (opcuaUpdateNodeValues True beef_memory two_node_example)) = [201, 105]"
  using publisher_takes_bridge_lock_only [of two_node_example True beef_memory]
    two_node_example_state reachable_two_node_example
  by (simp add: qx_second_info_def iw5_info_def update_node_def
      is_bridge_type_def UA_Variant_setScalarCopy_def beef_memory_def example_memory_def
      node_writes_Cons image_reads_Cons)

text \<open>
  The claim C5 as stated fails on the running example: the update of its one node does
  not take \<^verbatim>\<open>bufferLock\<close>, and it calls into the stack while it holds \<^verbatim>\<open>opcua_mutex\<close>.
\<close>

theorem publisher_counterexample:
  "Lock bufferLock \<notin>
     set (new_events running_example (opcuaUpdateNodeValues True example_memory running_example))
   \<and> \<not> stack_calls_outside opcua_mutex False
         (new_events running_example (opcuaUpdateNodeValues True example_memory running_example))"
  by (simp add: new_events_def opcuaUpdateNodeValues_def emit_def running_example_state
      update_node_def is_bridge_type_def)

section \<open>The manifest and the resolver: theorems\<close>

lemma parse_iw5: "parse_located_var ''__LOCATED_VAR(UINT,__IW5,I,W,5)'' = Skipped"
  by (simp add: parse_located_var_def NUL_def strtok_all_def)

text \<open>
  Claim C1, at a failing input. The claim: a manifest line with the marker and at least
  five comma-separated fields is parsed, and a node is created for it when its slot is
  present; only marker lines with fewer than five fields are refused. The scenario line
  \<^verbatim>\<open>__LOCATED_VAR(UINT,__IW5,I,W,5)\<close> has five fields and its slot \<^verbatim>\<open>%IW5\<close> is present in
  the example image, yet the loop body takes the \<^verbatim>\<open>if (n < 6) continue;\<close>: the line is
  counted in \<^verbatim>\<open>seen\<close> and nothing else happens, whatever the stack and the bridge state.
  (The same line with a sixth field reaches the resolver: \<open>six_field_line_accepted\<close>.)
\<close>

theorem five_field_line_skipped:
  "resolvePointerFromLocation example_image ''%IW5'' = Some (105, UA_TYPES_UINT16)
   \<and> parse_located_var ''__LOCATED_VAR(UINT,__IW5,I,W,5)'' = Skipped
   \<and> located_var_line env example_image folder ''__LOCATED_VAR(UINT,__IW5,I,W,5)''
        (st, added, seen) = (st, added, seen + 1)"
  by (simp add: located_var_line_def parse_iw5 resolve_iw5)

lemma parse_mb0: "parse_located_var mb0_line = LocatedVar ''MB0'' ''%MB0''"
  by (simp add: mb0_line_def parse_located_var_def NUL_def strtok_all_def display_name_def
      skip_blanks_def first_char_def atoi_def strtol_def
      int_of_long_def decimal_value_def isspace_def digit_val_def compose_location_def
      show_int_def digit_char_def nth_char_def Let_def)

lemma resolve_bad_bit:
  assumes "location_width loc = CHR ''X''"
    and "\<forall>b. location_bit loc = Some b \<longrightarrow> b < 0 \<or> 8 \<le> b"
  shows "resolvePointerFromLocation img loc = None"
  using assms
  by (auto simp: resolvePointerFromLocation_def location_width_def location_bit_def Let_def
      split: option.splits)

lemma resolve_negative_index:
  assumes "location_index loc < 0"
  shows "resolvePointerFromLocation img loc = None"
  using assms
  by (simp add: resolvePointerFromLocation_def location_index_def Let_def slot_def)

lemma resolve_memory_bit_or_byte:
  assumes "location_area loc = CHR ''M''"
    and "location_width loc = CHR ''X'' \<or> location_width loc = CHR ''B''"
  shows "resolvePointerFromLocation img loc = None"
  using assms
  by (auto simp: resolvePointerFromLocation_def location_area_def location_width_def Let_def)

lemma unresolved_line_skipped:
  assumes "parse_located_var line = LocatedVar name loc"
    and "resolvePointerFromLocation img loc = None"
  shows "located_var_line env img folder line (st, added, seen) = (st, added, seen + 1)"
  using assms by (simp add: located_var_line_def)

lemma fields_ix08:
  "location_width ''%IX0.8'' = CHR ''X'' \<and> location_bit ''%IX0.8'' = Some 8"
  by (simp add: location_width_def location_bit_def nth_char_def atoi_def strtol_def
      int_of_long_def decimal_value_def isspace_def
      digit_val_def NUL_def)

lemma fields_mw: "location_index ''%MW-1'' = - 1"
  by (simp add: location_index_def atoi_def strtol_def
      int_of_long_def decimal_value_def isspace_def digit_val_def)

lemma fields_mb0:
  "location_area ''%MB0'' = CHR ''M'' \<and> location_width ''%MB0'' = CHR ''B''"
  by (simp add: location_area_def location_width_def nth_char_def)

lemma startup_past_mb0:
  "fst (opcuaStartServer_startup (obliging_stack 2 [mb0_line, qx_line]) example_image 4840 bridge_init)
   \<and> g_node_list (snd (opcuaStartServer_startup (obliging_stack 2 [mb0_line, qx_line])
                         example_image 4840 bridge_init)) =
       [\<lparr>nodeId = UA_NODEID_NUMERIC 2 4000000, variablePtr = Some 201,
         dataType = Some UA_TYPES_BOOLEAN\<rparr>]"
  by (simp add: opcuaStartServer_startup_def Let_def scanAndCreateNodes_def
      createNodesFromLocatedVariables_def createProgramVariablesFolder_def
      createFolderStructure_def registerNamespace_def hdrCandidates_def line_qx
      unresolved_line_skipped [OF parse_mb0 resolve_memory_bit_or_byte]  fields_mb0
      addVariableNode_def emit_def obliging_stack_def bridge_init_def UA_NODEID_NUMERIC_def)

lemma int_of_long_in_range:
  assumes "- 2147483648 \<le> v" and "v \<le> 2147483647"
  shows "int_of_long v = v"
proof (cases "0 \<le> v")
  case True
  then have "v mod 4294967296 = v" using assms by simp
  then show ?thesis using assms by (simp add: int_of_long_def)
next
  case False
  have "(v + 4294967296) mod 4294967296 = v + 4294967296"
    using assms False by (intro mod_pos_pos_trivial) simp_all
  then have "v mod 4294967296 = v + 4294967296" by simp
  then show ?thesis using False assms by (simp add: int_of_long_def)
qed

lemma atoi_in_range:
  "- 2147483648 \<le> decimal_value s \<Longrightarrow> decimal_value s \<le> 2147483647 \<Longrightarrow> atoi s = decimal_value s"
  by (simp add: atoi_def strtol_def int_of_long_in_range)

lemma atoi_is_int: "- 2147483648 \<le> atoi s \<and> atoi s \<le> 2147483647"
proof -
  define r where "r = strtol s mod 4294967296"
  have r: "0 \<le> r" "r < 4294967296"
    by (simp_all add: r_def)
  have "atoi s = (if r < 2147483648 then r else r - 4294967296)"
    by (simp add: atoi_def int_of_long_def r_def)
  then show ?thesis using r by (simp split: if_splits)
qed

lemma resolve_wrapped_index:
  "resolvePointerFromLocation example_image ''%IW-4294967291'' = Some (105, UA_TYPES_UINT16)"
  by (simp add: resolvePointerFromLocation_def nth_char_def atoi_def strtol_def int_of_long_def
      decimal_value_def isspace_def digit_val_def
      Let_def slot_def example_image_def no_image_def NUL_def)

lemma resolve_wrapped_bit:
  "resolvePointerFromLocation example_image ''%QX0.4294967297'' = Some (201, UA_TYPES_BOOLEAN)"
  by (simp add: resolvePointerFromLocation_def nth_char_def atoi_def strtol_def int_of_long_def
      decimal_value_def isspace_def digit_val_def
      Let_def slot_def example_image_def no_image_def NUL_def)

lemma numerals_beyond_int_wrap:
  "resolvePointerFromLocation img ''%IX0.4294967297'' = resolvePointerFromLocation img ''%IX0.1''"
  "resolvePointerFromLocation img ''%MW-4294967295'' = resolvePointerFromLocation img ''%MW1''"
  "parse_located_var ''__LOCATED_VAR(UINT,__IW5,I,W,4294967301,0)'' = LocatedVar ''IW5'' ''%IW5''"
  by (simp_all add: resolvePointerFromLocation_def parse_located_var_def NUL_def strtok_all_def
      display_name_def skip_blanks_def first_char_def compose_location_def show_int_def
      digit_char_def nth_char_def atoi_def strtol_def int_of_long_def decimal_value_def
      isspace_def digit_val_def Let_def)

text \<open>
  Claim C8, as the code has it. The claim: every token of width X whose bit is outside
  0..7, every token with a negative index, and every token of area M with width X or B
  is rejected, and its manifest entry is skipped. The resolver reads the index and the
  bit with \<^verbatim>\<open>atoi\<close> into C \<^verbatim>\<open>int\<close>s, and it is these it tests. It rejects every token of
  width X whose bit, so read, is missing or outside 0..7, every token whose index, so
  read, is negative, and every token of area M with width X or B, all with the one
  failure result it has (\<^verbatim>\<open>false\<close>, here \<open>None\<close>); a manifest line whose location is
  rejected leaves the bridge as it was (no node, no node id used, no call into the
  stack), is counted in \<^verbatim>\<open>seen\<close> only, and the loop goes on with the next line. A
  numeral that fits an \<^verbatim>\<open>int\<close> is read as the number it writes, and whatever is read is
  an \<^verbatim>\<open>int\<close>.
\<close>

theorem out_of_domain_locations_rejected:
  "(location_width loc = CHR ''X'' \<and> (\<forall>b. location_bit loc = Some b \<longrightarrow> b < 0 \<or> 8 \<le> b)
      \<longrightarrow> resolvePointerFromLocation img loc = None)
   \<and> (location_index loc < 0 \<longrightarrow> resolvePointerFromLocation img loc = None)
   \<and> (location_area loc = CHR ''M''
        \<and> (location_width loc = CHR ''X'' \<or> location_width loc = CHR ''B'')
      \<longrightarrow> resolvePointerFromLocation img loc = None)
   \<and> (parse_located_var line = LocatedVar name loc \<and> resolvePointerFromLocation img loc = None
      \<longrightarrow> located_var_line env img folder line (st, added, seen) = (st, added, seen + 1))
   \<and> (- 2147483648 \<le> decimal_value s \<and> decimal_value s \<le> 2147483647
      \<longrightarrow> atoi s = decimal_value s)
   \<and> - 2147483648 \<le> atoi s \<and> atoi s \<le> 2147483647"
  using resolve_bad_bit resolve_negative_index resolve_memory_bit_or_byte unresolved_line_skipped
    atoi_in_range atoi_is_int
  by blast

lemma value_minus_one: "decimal_value ''-1'' = - 1"
  by (simp add: decimal_value_def isspace_def digit_val_def)

theorem out_of_domain_locations_rejected_witness:
  "location_width ''%IX0.8'' = CHR ''X'' \<and> location_bit ''%IX0.8'' = Some 8
   \<and> resolvePointerFromLocation example_image ''%IX0.8'' = None
   \<and> location_index ''%MW-1'' = - 1
   \<and> resolvePointerFromLocation example_image ''%MW-1'' = None
   \<and> location_area ''%MB0'' = CHR ''M'' \<and> location_width ''%MB0'' = CHR ''B''
   \<and> resolvePointerFromLocation example_image ''%MB0'' = None
   \<and> parse_located_var mb0_line = LocatedVar ''MB0'' ''%MB0''
   \<and> located_var_line (obliging_stack 2 []) example_image (UA_NODEID_NUMERIC 2 2100) mb0_line
        (bridge_init, 0, 0) = (bridge_init, 0, 1)
   \<and> fst (opcuaStartServer_startup (obliging_stack 2 [mb0_line, qx_line]) example_image 4840
            bridge_init)
   \<and> decimal_value ''-1'' = - 1 \<and> atoi ''-1'' = - 1"
  using out_of_domain_locations_rejected [of "''%IX0.8''" example_image _ _ _ _ _ _ _ "''-1''"]
    out_of_domain_locations_rejected [of "''%MW-1''" example_image]
    out_of_domain_locations_rejected [of "''%MB0''" example_image mb0_line "''MB0''"
       "obliging_stack 2 []" "UA_NODEID_NUMERIC 2 2100" bridge_init 0 0]
    fields_ix08 fields_mw fields_mb0 parse_mb0 startup_past_mb0 value_minus_one
  by simp

text \<open>
  The claim C8 as stated fails for numerals beyond the range of \<^verbatim>\<open>int\<close>: the token
  \<^verbatim>\<open>%IW-4294967291\<close> writes a negative index and resolves as \<^verbatim>\<open>%IW5\<close> does, and the token
  \<^verbatim>\<open>%QX0.4294967297\<close> writes a bit outside 0..7 and resolves as \<^verbatim>\<open>%QX0.1\<close> does.
\<close>

theorem numeral_beyond_int_resolves:
  "decimal_value (drop 3 ''%IW-4294967291'') = - 4294967291
   \<and> resolvePointerFromLocation example_image ''%IW-4294967291'' = Some (105, UA_TYPES_UINT16)
   \<and> location_width ''%QX0.4294967297'' = CHR ''X''
   \<and> map_option decimal_value (map_option tl (strchr (drop 3 ''%QX0.4294967297'') CHR ''.'')) =
       Some 4294967297
   \<and> resolvePointerFromLocation example_image ''%QX0.4294967297'' = Some (201, UA_TYPES_BOOLEAN)"
  by (simp add: resolve_wrapped_index resolve_wrapped_bit decimal_value_def isspace_def
      digit_val_def location_width_def nth_char_def NUL_def)

section \<open>The value callbacks: theorems\<close>

lemma installed_callbacks_append [simp]:
  "installed_callbacks (a @ b) = installed_callbacks a @ installed_callbacks b"
  by (simp add: installed_callbacks_def)

lemma installed_callbacks_Nil [simp]: "installed_callbacks [] = []"
  by (simp add: installed_callbacks_def)

lemma installed_callbacks_Cons:
  "installed_callbacks (e # es) = value_callback_of e @ installed_callbacks es"
  by (simp add: installed_callbacks_def)

lemma callbacks_emit:
  "installed_callbacks es = [] \<Longrightarrow> callbacks_write_only (emit es st) = callbacks_write_only st"
  by (simp add: callbacks_write_only_def emit_def)

lemma callbacks_fields [simp]:
  "callbacks_write_only (st\<lparr>g_opcua_running := r\<rparr>) = callbacks_write_only st"
  "callbacks_write_only (st\<lparr>g_opcua_server := sv\<rparr>) = callbacks_write_only st"
  "callbacks_write_only (st\<lparr>g_namespace_index := ns\<rparr>) = callbacks_write_only st"
  "callbacks_write_only (st\<lparr>nextId := i\<rparr>) = callbacks_write_only st"
  by (simp_all add: callbacks_write_only_def)

lemma callbacks_addVariableNode:
  "callbacks_write_only st \<Longrightarrow> callbacks_write_only (addVariableNode env name folder nid p t st)"
  by (auto simp: addVariableNode_def callbacks_write_only_def emit_def Let_def
      installed_callbacks_Cons split: option.splits)

lemma callbacks_line:
  "callbacks_write_only (fst loop) \<Longrightarrow>
     callbacks_write_only (fst (located_var_line env img folder line loop))"
  by (cases loop)
     (auto simp: located_var_line_def Let_def callbacks_addVariableNode
        split: parsed_line.splits option.splits)

lemma callbacks_lines:
  "callbacks_write_only (fst loop) \<Longrightarrow>
     callbacks_write_only
       (fst (foldl (\<lambda>loop line. located_var_line env img folder line loop) loop ls))"
  by (induction ls arbitrary: loop) (simp_all add: callbacks_line)

lemma callbacks_createNodes:
  assumes g: "callbacks_write_only st"
  shows "callbacks_write_only (snd (createNodesFromLocatedVariables env img st))"
proof -
  obtain folder st1 where f: "createProgramVariablesFolder st = (folder, st1)"
    by (cases "createProgramVariablesFolder st") auto
  have g1: "callbacks_write_only st1"
    using g f
    by (auto simp: createProgramVariablesFolder_def Let_def callbacks_emit installed_callbacks_Cons)
  show ?thesis
  proof (cases "first_open (fopen_lines env) hdrCandidates")
    case None
    then show ?thesis using g1 f by (simp add: createNodesFromLocatedVariables_def)
  next
    case (Some ls)
    have "callbacks_write_only
            (fst (foldl (\<lambda>loop line. located_var_line env img folder line loop) (st1, 0, 0) ls))"
      using g1 by (intro callbacks_lines) simp
    then show ?thesis using Some f
      by (auto simp: createNodesFromLocatedVariables_def split: prod.splits)
  qed
qed

lemma callbacks_scan:
  "callbacks_write_only st \<Longrightarrow> callbacks_write_only (scanAndCreateNodes env img st)"
  by (simp add: scanAndCreateNodes_def callbacks_createNodes createFolderStructure_def Let_def
      callbacks_emit installed_callbacks_Cons)

lemma callbacks_delete [simp]: "callbacks_write_only (delete_server st) = callbacks_write_only st"
  by (simp add: delete_server_def callbacks_emit installed_callbacks_Cons)

lemma callbacks_register [simp]:
  "callbacks_write_only (registerNamespace env st) = callbacks_write_only st"
  by (simp add: registerNamespace_def Let_def callbacks_emit installed_callbacks_Cons)

lemma callbacks_startup:
  "callbacks_write_only st \<Longrightarrow>
     callbacks_write_only (snd (opcuaStartServer_startup env img port st))"
  by (simp add: opcuaStartServer_startup_def Let_def callbacks_scan callbacks_emit
      installed_callbacks_Cons)

lemma callbacks_stop: "callbacks_write_only st \<Longrightarrow> callbacks_write_only (stopOpcua st)"
  by (simp add: stopOpcua_def Let_def callbacks_emit installed_callbacks_Cons)

lemma callbacks_shutdown:
  "callbacks_write_only st \<Longrightarrow> callbacks_write_only (opcuaStartServer_shutdown st)"
  by (simp add: opcuaStartServer_shutdown_def)

lemma installed_callbacks_update_events:
  "\<forall>e\<in>set body. is_update_event e \<Longrightarrow> installed_callbacks body = []"
proof (induction body)
  case Nil
  then show ?case by simp
next
  case (Cons e body)
  then show ?case by (cases e rule: is_update_event.cases) (auto simp: installed_callbacks_Cons)
qed

lemma callbacks_update:
  "callbacks_write_only st \<Longrightarrow> callbacks_write_only (opcuaUpdateNodeValues copy_ok m st)"
  by (simp add: opcuaUpdateNodeValues_def callbacks_emit installed_callbacks_Cons
      installed_callbacks_update_events update_nodes_events)

lemma reachable_callbacks: "reachable st \<Longrightarrow> callbacks_write_only st"
proof (induction rule: reachable.induct)
  case reach_init
  show ?case by (simp add: callbacks_write_only_def bridge_init_def)
next
  case (reach_iterate st)
  then show ?case by (simp add: callbacks_emit installed_callbacks_Cons)
qed (simp_all add: callbacks_startup callbacks_stop callbacks_shutdown callbacks_update)

lemma reachable_onRead:
  "reachable st \<Longrightarrow> cb \<in> set (installed_callbacks (events st)) \<Longrightarrow>
     onRead cb = None \<and> onWrite cb = Some Fn_onVariableValueWrite"
  using reachable_callbacks[of st]
  by (auto simp: callbacks_write_only_def node_value_callback_def)

lemma running_example_callbacks:
  "installed_callbacks (events running_example) = [node_value_callback]"
  by (simp add: running_example_def startup_defs installed_callbacks_Cons)

lemma two_node_example_callbacks:
  "installed_callbacks (events two_node_example) = [node_value_callback, node_value_callback]"
  by (simp add: two_node_example_def startup_defs line_iw5x installed_callbacks_Cons)

text \<open>
  Claim C2, as the code has it. The claim: the read callback of a node produces a data
  value that has a value, the shadow cell's contents as a scalar of the binding's type,
  with status Good, without touching the image or the scan lock. No node has a read
  callback: in every state the bridge can reach, each value callback it has installed
  has \<^verbatim>\<open>onRead = NULL\<close> (reads are left to the stack and the periodic update), so no
  code of the bridge runs on a client read. \<^verbatim>\<open>readVariableValue\<close>, which is installed on
  no node, on a binding with one of the eleven types and a shadow cell returns Good
  with a data value of status Good whose variant is the scalar of the binding's type
  holding the shadow cell's contents (when the copy succeeds); it reads the shadow cell
  and nothing else, takes no lock, and its result does not depend on the image pointer.
\<close>

theorem no_read_callback_installed:
  "(reachable st \<longrightarrow> (\<forall>cb \<in> set (installed_callbacks (events st)). onRead cb = None))
   \<and> (b_dataType binding = Some t \<and> is_bridge_type t \<and> shadowPtr binding = Some sp \<longrightarrow>
        (\<exists>dv'. readVariableValue copy_ok (Some binding) (Some dv) m =
                 (UA_STATUSCODE_GOOD, Some dv', [ReadMem sp])
               \<and> hasStatus dv' \<and> status dv' = UA_STATUSCODE_GOOD
               \<and> dv_value dv' = (if copy_ok then scalar_variant t (m sp) else dv_value dv))
        \<and> readVariableValue copy_ok (Some (binding\<lparr>b_variablePtr := q\<rparr>)) (Some dv) m =
            readVariableValue copy_ok (Some binding) (Some dv) m)"
proof -
  have a: "reachable st \<longrightarrow> (\<forall>cb \<in> set (installed_callbacks (events st)). onRead cb = None)"
    using reachable_onRead by blast
  have b: "readVariableValue copy_ok (Some binding) (Some dv) m = read_shadow copy_ok t sp m dv"
    and c: "readVariableValue copy_ok (Some (binding\<lparr>b_variablePtr := q\<rparr>)) (Some dv) m =
            read_shadow copy_ok t sp m dv"
    if "b_dataType binding = Some t" "is_bridge_type t" "shadowPtr binding = Some sp"
    using that by (simp_all add: readVariableValue_shadow)
  show ?thesis
    using a b c by (simp add: read_shadow_def UA_Variant_setScalarCopy_def)
qed

theorem no_read_callback_installed_witness:
  "reachable two_node_example
   \<and> installed_callbacks (events two_node_example) =
       [\<lparr>onRead = None, onWrite = Some Fn_onVariableValueWrite\<rparr>,
        \<lparr>onRead = None, onWrite = Some Fn_onVariableValueWrite\<rparr>]
   \<and> b_dataType iw5_binding = Some UA_TYPES_UINT16 \<and> is_bridge_type UA_TYPES_UINT16
   \<and> shadowPtr iw5_binding = Some 305
   \<and> readVariableValue True (Some iw5_binding) (Some blank_data_value)
         (example_memory(305 := UInt16 0xBEEF)) =
       (UA_STATUSCODE_GOOD,
        Some (blank_data_value\<lparr>dv_value := scalar_variant UA_TYPES_UINT16 (UInt16 0xBEEF),
                hasStatus := True\<rparr>),
        [ReadMem 305])
   \<and> readVariableValue True (Some (iw5_binding\<lparr>b_variablePtr := None\<rparr>)) (Some blank_data_value)
         (example_memory(305 := UInt16 0xBEEF)) =
       readVariableValue True (Some iw5_binding) (Some blank_data_value)
         (example_memory(305 := UInt16 0xBEEF))"
  using no_read_callback_installed
    [of two_node_example iw5_binding UA_TYPES_UINT16 305 True blank_data_value
      "example_memory(305 := UInt16 0xBEEF)" None]
    reachable_two_node_example
  by (simp add: two_node_example_callbacks
      node_value_callback_def iw5_binding_def is_bridge_type_def readVariableValue_def
      read_shadow_def UA_Variant_setScalarCopy_def blank_data_value_def)

text \<open>
  The claim C2 as stated fails: \<^verbatim>\<open>readVariableValue\<close> on a Boolean binding whose shadow
  cell holds \<open>True\<close> hands back a data value with \<^verbatim>\<open>hasValue\<close> false, and the value
  callback installed on the node of the running example has no read callback.
\<close>

theorem read_handler_reports_no_value:
  "readVariableValue True
     (Some \<lparr>b_variablePtr = Some 200, b_dataType = Some UA_TYPES_BOOLEAN, shadowPtr = Some 201\<rparr>)
     (Some blank_data_value) example_memory =
   (UA_STATUSCODE_GOOD,
    Some \<lparr>dv_value = scalar_variant UA_TYPES_BOOLEAN (Boolean True), hasValue = False,
          hasStatus = True, status = UA_STATUSCODE_GOOD, hasSourceTimestamp = False\<rparr>,
    [ReadMem 201])
   \<and> installed_callbacks (events running_example) =
       [\<lparr>onRead = None, onWrite = Some Fn_onVariableValueWrite\<rparr>]"
  by (simp add: readVariableValue_def read_shadow_def UA_Variant_setScalarCopy_def
      blank_data_value_def example_memory_def running_example_callbacks node_value_callback_def)








section \<open>The node id counter: theorems\<close>

lemma requested_ids_append [simp]: "requested_ids (a @ b) = requested_ids a @ requested_ids b"
  by (simp add: requested_ids_def)

lemma requested_ids_Nil [simp]: "requested_ids [] = []"
  by (simp add: requested_ids_def)

lemma requested_ids_Cons: "requested_ids (e # es) = variable_node_id e @ requested_ids es"
  by (simp add: requested_ids_def)

lemma emit_fields [simp]:
  "events (emit es st) = events st @ es"
  "nextId (emit es st) = nextId st"
  "g_node_list (emit es st) = g_node_list st"
  "g_node_count (emit es st) = g_node_count st"
  "g_namespace_index (emit es st) = g_namespace_index st"
  "g_opcua_running (emit es st) = g_opcua_running st"
  "g_opcua_server (emit es st) = g_opcua_server st"
  by (simp_all add: emit_def)

lemma created_ids_emit [simp]: "created_ids (emit es st) = created_ids st"
  by (simp add: created_ids_def emit_def)

lemma created_ids_fields [simp]:
  "created_ids (st\<lparr>g_opcua_running := r\<rparr>) = created_ids st"
  "created_ids (st\<lparr>g_opcua_server := sv\<rparr>) = created_ids st"
  "created_ids (st\<lparr>g_namespace_index := ns\<rparr>) = created_ids st"
  "created_ids (st\<lparr>nextId := i\<rparr>) = created_ids st"
  by (simp_all add: created_ids_def)

lemma ids_emit:
  "requested_ids es = [] \<Longrightarrow> ids_consecutive (emit es st) = ids_consecutive st"
  by (simp add: ids_consecutive_def)

lemma ids_fields [simp]:
  "ids_consecutive (st\<lparr>g_opcua_running := r\<rparr>) = ids_consecutive st"
  "ids_consecutive (st\<lparr>g_opcua_server := sv\<rparr>) = ids_consecutive st"
  "ids_consecutive (st\<lparr>g_namespace_index := ns\<rparr>) = ids_consecutive st"
  by (simp_all add: ids_consecutive_def)

lemma addVariableNode_ids:
  "requested_ids (events (addVariableNode env name folder nid (Some p) (Some t) st)) =
     requested_ids (events st) @ [numeric nid]
   \<and> nextId (addVariableNode env name folder nid (Some p) (Some t) st) = nextId st
   \<and> (created_ids (addVariableNode env name folder nid (Some p) (Some t) st) = created_ids st
      \<or> created_ids (addVariableNode env name folder nid (Some p) (Some t) st) =
          created_ids st @ [numeric nid])"
  by (simp add: addVariableNode_def emit_def Let_def requested_ids_Cons created_ids_def)

lemma nth_id_Suc: "nth_id n + 1 = nth_id (Suc n)"
  by (simp add: nth_id_def)

lemma ids_line:
  assumes "ids_consecutive (fst loop)"
  shows "ids_consecutive (fst (located_var_line env img folder line loop))"
proof -
  obtain st added seen where loop: "loop = (st, added, seen)" by (cases loop) auto
  from assms loop obtain n ks where
    n: "requested_ids (events st) = map nth_id [0..<n]" "nextId st = nth_id n"
       "created_ids st = map nth_id ks" "sorted_wrt (<) ks" "\<forall>k \<in> set ks. k < n"
    by (auto simp: ids_consecutive_def)
  have step: "ids_consecutive
      (addVariableNode env name folder (UA_NODEID_NUMERIC (g_namespace_index st) (nextId st))
         (Some p) (Some t) (st\<lparr>nextId := nextId st + 1\<rparr>))" for name p t
  proof -
    let ?st' = "addVariableNode env name folder
        (UA_NODEID_NUMERIC (g_namespace_index st) (nextId st)) (Some p) (Some t)
        (st\<lparr>nextId := nextId st + 1\<rparr>)"
    from addVariableNode_ids[of env name folder
        "UA_NODEID_NUMERIC (g_namespace_index st) (nextId st)" p t "st\<lparr>nextId := nextId st + 1\<rparr>"]
    have r: "requested_ids (events ?st') = map nth_id [0..<Suc n]"
      and c: "nextId ?st' = nth_id (Suc n)"
      and k: "created_ids ?st' = map nth_id ks \<or> created_ids ?st' = map nth_id (ks @ [n])"
      by (simp_all add: n UA_NODEID_NUMERIC_def nth_id_Suc)
    from k show ?thesis
    proof
      assume "created_ids ?st' = map nth_id ks"
      then show ?thesis
        unfolding ids_consecutive_def using r c n(4,5)
        by (intro exI[of _ "Suc n"] exI[of _ ks]) (auto simp: less_Suc_eq)
    next
      assume "created_ids ?st' = map nth_id (ks @ [n])"
      then show ?thesis
        unfolding ids_consecutive_def using r c n(4,5)
        by (intro exI[of _ "Suc n"] exI[of _ "ks @ [n]"]) (auto simp: sorted_wrt_append less_Suc_eq)
    qed
  qed
  show ?thesis
    using assms loop step
    by (auto simp: located_var_line_def Let_def split: parsed_line.splits option.splits)
qed

lemma ids_lines:
  "ids_consecutive (fst loop) \<Longrightarrow>
     ids_consecutive (fst (foldl (\<lambda>loop line. located_var_line env img folder line loop) loop ls))"
  by (induction ls arbitrary: loop) (simp_all add: ids_line)

lemma ids_createNodes:
  assumes g: "ids_consecutive st"
  shows "ids_consecutive (snd (createNodesFromLocatedVariables env img st))"
proof -
  obtain folder st1 where f: "createProgramVariablesFolder st = (folder, st1)"
    by (cases "createProgramVariablesFolder st") auto
  have g1: "ids_consecutive st1"
    using g f by (auto simp: createProgramVariablesFolder_def Let_def ids_emit requested_ids_Cons)
  show ?thesis
  proof (cases "first_open (fopen_lines env) hdrCandidates")
    case None
    then show ?thesis using g1 f by (simp add: createNodesFromLocatedVariables_def)
  next
    case (Some ls)
    have "ids_consecutive
            (fst (foldl (\<lambda>loop line. located_var_line env img folder line loop) (st1, 0, 0) ls))"
      using g1 by (intro ids_lines) simp
    then show ?thesis using Some f
      by (auto simp: createNodesFromLocatedVariables_def split: prod.splits)
  qed
qed

lemma ids_scan:
  "ids_consecutive st \<Longrightarrow> ids_consecutive (scanAndCreateNodes env img st)"
  by (simp add: scanAndCreateNodes_def ids_createNodes createFolderStructure_def Let_def
      ids_emit requested_ids_Cons)

lemma ids_delete [simp]: "ids_consecutive (delete_server st) = ids_consecutive st"
  by (simp add: delete_server_def ids_emit requested_ids_Cons)

lemma ids_register [simp]: "ids_consecutive (registerNamespace env st) = ids_consecutive st"
  by (simp add: registerNamespace_def Let_def ids_emit requested_ids_Cons)

lemma ids_startup:
  "ids_consecutive st \<Longrightarrow> ids_consecutive (snd (opcuaStartServer_startup env img port st))"
  by (simp add: opcuaStartServer_startup_def Let_def ids_scan ids_emit requested_ids_Cons)

lemma ids_stop: "ids_consecutive st \<Longrightarrow> ids_consecutive (stopOpcua st)"
  by (simp add: stopOpcua_def Let_def ids_emit requested_ids_Cons)

lemma ids_shutdown: "ids_consecutive st \<Longrightarrow> ids_consecutive (opcuaStartServer_shutdown st)"
  by (simp add: opcuaStartServer_shutdown_def)

lemma requested_ids_update_events:
  "\<forall>e\<in>set body. is_update_event e \<Longrightarrow> requested_ids body = []"
proof (induction body)
  case Nil
  then show ?case by simp
next
  case (Cons e body)
  then show ?case by (cases e rule: is_update_event.cases) (auto simp: requested_ids_Cons)
qed

lemma ids_update: "ids_consecutive st \<Longrightarrow> ids_consecutive (opcuaUpdateNodeValues copy_ok m st)"
  by (simp add: opcuaUpdateNodeValues_def ids_emit requested_ids_Cons
      requested_ids_update_events update_nodes_events)

lemma reachable_ids: "reachable st \<Longrightarrow> ids_consecutive st"
proof (induction rule: reachable.induct)
  case reach_init
  show ?case unfolding ids_consecutive_def
    by (rule exI[of _ 0], rule exI[of _ "[]"])
       (simp add: bridge_init_def nth_id_def created_ids_def)
next
  case (reach_iterate st)
  then show ?case by (simp add: ids_emit requested_ids_Cons)
qed (simp_all add: ids_startup ids_stop ids_shutdown ids_update)

lemma nth_id_less:
  assumes "i < j" and "j < 2 ^ 32 - 4000000"
  shows "nth_id i < nth_id j"
proof -
  have small: "4000000 + i < (2::nat) ^ 32" "4000000 + j < (2::nat) ^ 32"
    using assms by simp_all
  have "unat (word_of_nat (4000000 + i) :: 32 word) = (4000000 + i) mod 2 ^ LENGTH(32)"
    by (rule unat_of_nat)
  then have ui: "unat (nth_id i) = 4000000 + i"
    using small(1) by (simp add: nth_id_def)
  have "unat (word_of_nat (4000000 + j) :: 32 word) = (4000000 + j) mod 2 ^ LENGTH(32)"
    by (rule unat_of_nat)
  then have uj: "unat (nth_id j) = 4000000 + j"
    using small(2) by (simp add: nth_id_def)
  show ?thesis
    unfolding word_less_nat_alt ui uj using assms(1) by simp
qed

lemma nth_id_sorted:
  assumes "sorted_wrt (<) ks" and "\<forall>k \<in> set ks. k < 2 ^ 32 - 4000000"
  shows "sorted_wrt (<) (map nth_id ks)"
proof -
  have "sorted_wrt (\<lambda>a b. nth_id a < nth_id b) ks"
    using assms(1)
  proof (rule sorted_wrt_mono_rel[rotated])
    fix a b
    assume "a \<in> set ks" "b \<in> set ks" "a < b"
    then show "nth_id a < nth_id b"
      using assms(2) by (intro nth_id_less) auto
  qed
  then show ?thesis by (simp add: sorted_wrt_map)
qed

lemma running_example_ids:
  "requested_ids (events running_example) = [4000000] \<and> nextId running_example = 4000001
   \<and> created_ids running_example = [4000000]"
  by (simp add: running_example_def opcuaStartServer_startup_def Let_def scanAndCreateNodes_def
      createNodesFromLocatedVariables_def createProgramVariablesFolder_def
      createFolderStructure_def registerNamespace_def hdrCandidates_def line_qx
      addVariableNode_def emit_def obliging_stack_def bridge_init_def UA_NODEID_NUMERIC_def
      requested_ids_Cons created_ids_def)

text \<open>
  Claim C10, as the code has it. \<^verbatim>\<open>nextId\<close> is a \<^verbatim>\<open>UA_UInt32\<close> that starts at 4000000;
  it is incremented once for every manifest line that resolves and is touched by
  nothing else, neither by a stop nor by a start. In every state the bridge can reach,
  the ids it has asked variable nodes for are 4000000, 4000001, ... in this order (in
  32-bit arithmetic) and the counter is the next one; as long as no more than
  4290967296 ids have been asked for, they are strictly increasing and no id is used
  twice, and so are the ids of the nodes registered on the node list, which are among
  them.
\<close>

theorem node_ids_increase_until_wrap:
  assumes "reachable st" and "length (requested_ids (events st)) \<le> 2 ^ 32 - 4000000"
  shows "requested_ids (events st) = map nth_id [0..<length (requested_ids (events st))]
         \<and> nextId st = nth_id (length (requested_ids (events st)))
         \<and> sorted_wrt (<) (requested_ids (events st))
         \<and> distinct (requested_ids (events st))
         \<and> sorted_wrt (<) (created_ids st)
         \<and> distinct (created_ids st)
         \<and> set (created_ids st) \<subseteq> set (requested_ids (events st))"
proof -
  from reachable_ids[OF assms(1)] obtain n ks where
    n: "requested_ids (events st) = map nth_id [0..<n]" "nextId st = nth_id n"
       "created_ids st = map nth_id ks" "sorted_wrt (<) ks" "\<forall>k \<in> set ks. k < n"
    by (auto simp: ids_consecutive_def)
  then have len: "length (requested_ids (events st)) = n" by simp
  then have bound: "n \<le> 2 ^ 32 - 4000000" using assms(2) by simp
  have "sorted_wrt (<) (map nth_id [0..<n])"
    using bound by (intro nth_id_sorted) auto
  then have s: "sorted_wrt (<) (requested_ids (events st))"
    using n(1) by simp
  then have d: "distinct (requested_ids (events st))"
    by (simp add: strict_sorted_iff)
  have "sorted_wrt (<) (map nth_id ks)"
    using n(4,5) bound by (intro nth_id_sorted) auto
  then have sc: "sorted_wrt (<) (created_ids st)"
    using n(3) by simp
  then have dc: "distinct (created_ids st)"
    by (simp add: strict_sorted_iff)
  have sub: "set (created_ids st) \<subseteq> set (requested_ids (events st))"
    using n(1,3,5) by auto
  show ?thesis using n len s d sc dc sub by simp
qed

theorem node_ids_increase_until_wrap_witness:
  "reachable running_example
   \<and> length (requested_ids (events running_example)) \<le> 2 ^ 32 - 4000000
   \<and> requested_ids (events running_example) = [4000000]
   \<and> nextId running_example = 4000001
   \<and> created_ids running_example = [4000000]
   \<and> sorted_wrt (<) (created_ids running_example)
   \<and> distinct (created_ids running_example)"
  using node_ids_increase_until_wrap [of running_example]
    reachable_running_example running_example_ids
  by simp

lemma replicate_qx_lines:
  "\<exists>st'. foldl (\<lambda>loop line. located_var_line env example_image folder line loop)
            (st, added, seen) (replicate n qx_line) = (st', added + int n, seen + int n)
         \<and> length (requested_ids (events st')) = length (requested_ids (events st)) + n"
proof (induction n arbitrary: st added seen)
  case 0
  show ?case by simp
next
  case (Suc n)
  let ?st1 = "addVariableNode env ''QX0_1'' folder
      (UA_NODEID_NUMERIC (g_namespace_index st) (nextId st)) (Some 201) (Some UA_TYPES_BOOLEAN)
      (st\<lparr>nextId := nextId st + 1\<rparr>)"
  from Suc[of ?st1 "added + 1" "seen + 1"] obtain st' where
    st': "foldl (\<lambda>loop line. located_var_line env example_image folder line loop)
            (?st1, added + 1, seen + 1) (replicate n qx_line) =
            (st', added + 1 + int n, seen + 1 + int n)"
      "length (requested_ids (events st')) = length (requested_ids (events ?st1)) + n"
    by blast
  have "length (requested_ids (events ?st1)) = length (requested_ids (events st)) + 1"
    by (simp add: addVariableNode_ids)
  with st' show ?case
    by (intro exI[of _ st']) (simp add: line_qx)
qed

lemma addVariableNode_obliging:
  "created_ids (addVariableNode (obliging_stack ns ls) name folder nid (Some p) (Some t) st) =
     created_ids st @ [numeric nid]
   \<and> nextId (addVariableNode (obliging_stack ns ls) name folder nid (Some p) (Some t) st) =
       nextId st
   \<and> g_namespace_index (addVariableNode (obliging_stack ns ls) name folder nid (Some p) (Some t) st) =
       g_namespace_index st"
  by (simp add: addVariableNode_def obliging_stack_def emit_def Let_def created_ids_def)

lemma replicate_qx_created:
  "created_ids (fst (foldl (\<lambda>loop line. located_var_line (obliging_stack ns ls) example_image
                                folder line loop) (st, added, seen) (replicate n qx_line))) =
     created_ids st @ map (\<lambda>k. nextId st + word_of_nat k) [0..<n]"
proof (induction n arbitrary: st added seen)
  case 0
  show ?case by simp
next
  case (Suc n)
  let ?st1 = "addVariableNode (obliging_stack ns ls) ''QX0_1'' folder
      (UA_NODEID_NUMERIC (g_namespace_index st) (nextId st)) (Some 201) (Some UA_TYPES_BOOLEAN)
      (st\<lparr>nextId := nextId st + 1\<rparr>)"
  have c1: "created_ids ?st1 = created_ids st @ [nextId st]" and n1: "nextId ?st1 = nextId st + 1"
    by (simp_all add: addVariableNode_obliging UA_NODEID_NUMERIC_def)
  have "map (\<lambda>k. nextId st + word_of_nat k) [0..<Suc n] =
        nextId st # map (\<lambda>k. nextId st + 1 + word_of_nat k) [0..<n]"
    by (simp add: upt_conv_Cons map_Suc_upt[symmetric] ac_simps del: upt_Suc)
  then show ?case
    using Suc[of ?st1 "added + 1" "seen + 1"] c1 n1
    by (simp add: line_qx del: upt_Suc)
qed

lemma stack_replies [simp]:
  "server_new_ok (obliging_stack ns ls) es"
  "getConfig_ok (obliging_stack ns ls) es"
  "setMinimal_reply (obliging_stack ns ls) es = UA_STATUSCODE_GOOD"
  "run_startup_reply (obliging_stack ns ls) es = UA_STATUSCODE_GOOD"
  "first_open (fopen_lines (obliging_stack ns ls)) hdrCandidates = Some ls"
  "server_new_ok (refusing_stack ns ls) es"
  "getConfig_ok (refusing_stack ns ls) es"
  "setMinimal_reply (refusing_stack ns ls) es = UA_STATUSCODE_GOOD"
  "run_startup_reply (refusing_stack ns ls) es = UA_STATUSCODE_GOOD"
  "first_open (fopen_lines (refusing_stack ns ls)) hdrCandidates = Some ls"
  by (simp_all add: refusing_stack_def obliging_stack_def hdrCandidates_def)

lemma refused_line:
  "created_ids (fst (located_var_line (refusing_stack ns ls) img folder line loop)) =
     created_ids (fst loop)"
  by (cases loop)
     (auto simp: located_var_line_def addVariableNode_def refusing_stack_def Let_def
        split: parsed_line.splits option.splits)

lemma refused_lines:
  "created_ids (fst (foldl (\<lambda>loop line. located_var_line (refusing_stack ns ls) img folder
                               line loop) loop lines)) = created_ids (fst loop)"
  by (induction lines arbitrary: loop) (simp_all add: refused_line)

lemma refused_startup:
  "created_ids (snd (opcuaStartServer_startup (refusing_stack ns ls) img port st)) =
     created_ids st"
proof -
  have "created_ids (snd (createNodesFromLocatedVariables (refusing_stack ns ls) img st')) =
      created_ids st'" for st'
    using refused_lines[of ns ls img _ "(_, 0, 0)" ls]
    by (simp add: createNodesFromLocatedVariables_def createProgramVariablesFolder_def Let_def
        split: prod.splits) (metis fst_conv created_ids_emit)
  then show ?thesis
    by (simp add: opcuaStartServer_startup_def Let_def scanAndCreateNodes_def
        createFolderStructure_def registerNamespace_def delete_server_def)
qed

lemma replicate_qx_createNodes:
  assumes "first_open (fopen_lines env) hdrCandidates = Some (replicate n qx_line)"
  shows "length (requested_ids (events (snd (createNodesFromLocatedVariables env example_image st)))) =
     length (requested_ids (events st)) + n"
proof -
  obtain folder st1 where f: "createProgramVariablesFolder st = (folder, st1)"
    by (cases "createProgramVariablesFolder st") auto
  have l1: "length (requested_ids (events st1)) = length (requested_ids (events st))"
    using f by (auto simp: createProgramVariablesFolder_def Let_def emit_def requested_ids_Cons)
  from replicate_qx_lines[of env folder st1 0 0 n] obtain st' where
    st': "foldl (\<lambda>loop line. located_var_line env example_image folder line loop)
            (st1, 0, 0) (replicate n qx_line) = (st', 0 + int n, 0 + int n)"
      "length (requested_ids (events st')) = length (requested_ids (events st1)) + n"
    by blast
  show ?thesis
    using f st' l1 assms by (simp add: createNodesFromLocatedVariables_def)
qed

lemma replicate_qx_startup:
  assumes "\<And>es. server_new_ok env es" and "\<And>es. getConfig_ok env es"
    and "\<And>es. setMinimal_reply env es = UA_STATUSCODE_GOOD"
    and "\<And>es. run_startup_reply env es = UA_STATUSCODE_GOOD"
    and "first_open (fopen_lines env) hdrCandidates = Some (replicate n qx_line)"
    and "\<not> g_opcua_running st"
  shows "fst (opcuaStartServer_startup env example_image port st)
       \<and> g_opcua_running (snd (opcuaStartServer_startup env example_image port st))
       \<and> length (requested_ids (events (snd (opcuaStartServer_startup env example_image port st)))) =
           length (requested_ids (events st)) + n"
  using assms
  by (simp add: opcuaStartServer_startup_def Let_def scanAndCreateNodes_def
      replicate_qx_createNodes createFolderStructure_def registerNamespace_def emit_def
      requested_ids_Cons delete_server_def)

lemma replicate_qx_created_createNodes:
  "created_ids (snd (createNodesFromLocatedVariables (obliging_stack ns (replicate n qx_line))
                       example_image st)) =
     created_ids st @ map (\<lambda>k. nextId st + word_of_nat k) [0..<n]"
proof -
  obtain folder st1 where f: "createProgramVariablesFolder st = (folder, st1)"
    by (cases "createProgramVariablesFolder st") auto
  have l1: "created_ids st1 = created_ids st" "nextId st1 = nextId st"
    using f by (auto simp: createProgramVariablesFolder_def Let_def)
  show ?thesis
    using replicate_qx_created[of ns "replicate n qx_line" folder st1 0 0 n] f l1
    by (auto simp: createNodesFromLocatedVariables_def split: prod.splits)
qed

lemma replicate_qx_created_startup:
  assumes "\<not> g_opcua_running st"
  shows "created_ids (snd (opcuaStartServer_startup (obliging_stack ns (replicate n qx_line))
                             example_image port st)) =
     created_ids st @ map (\<lambda>k. nextId st + word_of_nat k) [0..<n]"
  using assms
  by (simp add: opcuaStartServer_startup_def Let_def scanAndCreateNodes_def
      replicate_qx_created_createNodes createFolderStructure_def registerNamespace_def
      delete_server_def)

lemma stopped_run:
  assumes "fst (opcuaStartServer_startup env img port st)"
    and "g_opcua_running (snd (opcuaStartServer_startup env img port st))"
  shows "\<exists>st'. opcuaStartServer env img port [CallStopOpcua] st = Some st'
          \<and> \<not> g_opcua_running st'
          \<and> requested_ids (events st') =
              requested_ids (events (snd (opcuaStartServer_startup env img port st)))
          \<and> created_ids st' = created_ids (snd (opcuaStartServer_startup env img port st))"
proof -
  obtain st1 where s: "opcuaStartServer_startup env img port st = (True, st1)"
    using assms(1) by (cases "opcuaStartServer_startup env img port st") auto
  then have r: "g_opcua_running st1" using assms(2) by simp
  show ?thesis
    using s r
    by (simp add: opcuaStartServer_def other_thread_def stopOpcua_def emit_def Let_def
        opcuaStartServer_shutdown_def delete_server_def requested_ids_Cons created_ids_def)
qed

lemma ids_other_thread: "ids_consecutive st \<Longrightarrow> ids_consecutive (other_thread a st)"
  by (cases a) (simp_all add: other_thread_def ids_stop ids_update)

lemma ids_run_loop:
  "ids_consecutive st \<Longrightarrow> run_loop sched st = Some st' \<Longrightarrow> ids_consecutive st'"
proof (induction sched arbitrary: st)
  case Nil
  then show ?case by (simp split: if_splits)
next
  case (Cons a sched)
  show ?case
  proof (cases "g_opcua_running st")
    case True
    have "ids_consecutive (other_thread a (emit [StackCall UA_Server_run_iterate] st))"
      using Cons.prems(1) by (simp add: ids_other_thread ids_emit requested_ids_Cons)
    then show ?thesis using Cons.IH Cons.prems(2) True by simp
  next
    case False
    then show ?thesis using Cons.prems by simp
  qed
qed

lemma ids_opcuaStartServer:
  assumes "ids_consecutive st" and "opcuaStartServer env img port sched st = Some st'"
  shows "ids_consecutive st'"
proof -
  obtain b st1 where s: "opcuaStartServer_startup env img port st = (b, st1)"
    by (cases "opcuaStartServer_startup env img port st") auto
  have i1: "ids_consecutive st1"
    using ids_startup[OF assms(1), of env img port] s by simp
  show ?thesis
  proof (cases b)
    case True
    then obtain st2 where "run_loop sched st1 = Some st2" "st' = opcuaStartServer_shutdown st2"
      using assms(2) s by (auto simp: opcuaStartServer_def)
    then show ?thesis using ids_run_loop[OF i1] ids_shutdown by blast
  next
    case False
    then show ?thesis using assms(2) s i1 by (simp add: opcuaStartServer_def)
  qed
qed

text \<open>
  The claim C10 as stated, for the whole life of the process, fails when the counter
  wraps. A first run asks for 2147483647 ids (the stack refuses the nodes) and is
  stopped; a second start asks for 2143483650 more and the stack creates the nodes.
  The last two nodes it registers have the ids 4294967295 and 0: the ids of the created
  nodes are not increasing.
\<close>

theorem node_ids_wrap_counterexample:
  "map_option ids_increasing wrapped_example = Some False"
proof -
  let ?env1 = "refusing_stack 2 (replicate 2147483647 qx_line)"
  let ?env2 = "obliging_stack 2 (replicate 2143483650 qx_line)"
  have not_running: "\<not> g_opcua_running bridge_init" by (simp add: bridge_init_def)
  have first: "fst (opcuaStartServer_startup ?env1 example_image 4840 bridge_init)
       \<and> g_opcua_running (snd (opcuaStartServer_startup ?env1 example_image 4840 bridge_init))
       \<and> length (requested_ids (events (snd (opcuaStartServer_startup ?env1 example_image 4840 bridge_init)))) =
           length (requested_ids (events bridge_init)) + 2147483647"
    by (rule replicate_qx_startup) (simp_all add: not_running)
  have none: "created_ids (snd (opcuaStartServer_startup ?env1 example_image 4840 bridge_init)) = []"
    by (simp add: refused_startup) (simp add: created_ids_def bridge_init_def)
  from stopped_run[of ?env1 example_image 4840 bridge_init] first none obtain st1 where
    st1: "opcuaStartServer ?env1 example_image 4840 [CallStopOpcua] bridge_init = Some st1"
      "\<not> g_opcua_running st1"
      "length (requested_ids (events st1)) = 2147483647"
      "created_ids st1 = []"
    by (auto simp: bridge_init_def)
  have "ids_consecutive st1"
    using reachable_ids[OF reach_init] st1(1) by (rule ids_opcuaStartServer)
  then obtain n where "requested_ids (events st1) = map nth_id [0..<n]" "nextId st1 = nth_id n"
    by (auto simp: ids_consecutive_def)
  then have next1: "nextId st1 = 2151483647"
    using st1(3) by (simp add: nth_id_def)
  let ?st2 = "snd (opcuaStartServer_startup ?env2 example_image 4840 st1)"
  have created: "created_ids ?st2 = map (\<lambda>k. 2151483647 + word_of_nat k) [0..<2143483650]"
    using replicate_qx_created_startup[OF st1(2), of 2 2143483650 4840] st1(4) next1 by simp
  have w: "wrapped_example = Some ?st2"
    by (simp add: wrapped_example_def st1(1))
  have "\<not> sorted_wrt (<) (created_ids ?st2)"
  proof
    assume "sorted_wrt (<) (created_ids ?st2)"
    then have "created_ids ?st2 ! 2143483648 < created_ids ?st2 ! 2143483649"
      by (rule sorted_wrt_nth_less) (simp_all add: created)
    then show False by (simp add: created)
  qed
  then show ?thesis by (simp add: w ids_increasing_def)
qed

section \<open>Starting and stopping: theorems\<close>

text \<open>
  Claim C6, at a failing input. The claim: when the stack registers the namespace under
  index 0 the start fails, the server instance is destroyed, no node is built and the
  bridge is not running. With a stack that answers 0 to \<^verbatim>\<open>UA_Server_addNamespace\<close> and
  succeeds in everything else, \<^verbatim>\<open>opcuaStartServer\<close> goes on after
  \<^verbatim>\<open>registerNamespace\<close>: it builds the folders and the node of \<^verbatim>\<open>%QX0.1\<close> in namespace
  0, sets \<^verbatim>\<open>g_opcua_running\<close>, keeps the server instance (\<^verbatim>\<open>UA_Server_delete\<close> is not
  called) and enters its run loop.
\<close>

theorem namespace_zero_start_proceeds:
  "fst namespace_zero_example
   \<and> g_opcua_running (snd namespace_zero_example)
   \<and> g_opcua_server (snd namespace_zero_example) = Some ServerInstance
   \<and> g_namespace_index (snd namespace_zero_example) = 0
   \<and> g_node_list (snd namespace_zero_example) =
       [\<lparr>nodeId = UA_NODEID_NUMERIC 0 4000000, variablePtr = Some 201,
         dataType = Some UA_TYPES_BOOLEAN\<rparr>]
   \<and> StackCall UA_Server_delete \<notin> set (events (snd namespace_zero_example))"
  by (simp add: namespace_zero_example_def startup_defs initial_value_def scalar_variant_def
      UA_NS0ID_OBJECTSFOLDER_def)

text \<open>
  Claim C7, at a failing input. The claim: after start, stop, start with the same
  manifest the second start has as many bindings as the first and none of the first
  instance is left. With the one-line manifest of \<^verbatim>\<open>%QX0.1\<close>: when the first run has
  been stopped and its server deleted, the node record of the first instance (id
  4000000) is still on \<^verbatim>\<open>g_node_list\<close>; when the second start has reached its run loop
  the list holds two records, the new one (id 4000001) before the one of the first
  instance, and \<^verbatim>\<open>g_node_count\<close> is 2.
\<close>

theorem restart_keeps_first_bindings:
  "map_option bridge_summary stopped_example =
     Some (None, False, 1,
           [\<lparr>nodeId = UA_NODEID_NUMERIC 2 4000000, variablePtr = Some 201,
             dataType = Some UA_TYPES_BOOLEAN\<rparr>])
   \<and> map_option bridge_summary restarted_example =
     Some (Some ServerInstance, True, 2,
           [\<lparr>nodeId = UA_NODEID_NUMERIC 2 4000001, variablePtr = Some 201,
             dataType = Some UA_TYPES_BOOLEAN\<rparr>,
            \<lparr>nodeId = UA_NODEID_NUMERIC 2 4000000, variablePtr = Some 201,
             dataType = Some UA_TYPES_BOOLEAN\<rparr>])"
  by (simp add: restarted_example_def stopped_example_def bridge_summary_def opcuaStartServer_def
      startup_defs other_thread_def stopOpcua_def opcuaStartServer_shutdown_def)

end
